theory Spec2Isabelle
  imports Complex_Main "HOL-Library.Word"
begin

section \<open>Webhook signature verification (functions/helpers/replicate.js)\<close>

text \<open>
  \<^verbatim>\<open>verifyWebhookSignature(body, webhookId, timestamp, signature, secret)\<close> uses three
  services of the Node runtime that are not code of this repository: the keyed digest
  \<^verbatim>\<open>crypto.createHmac('sha256', key).update(content).digest('base64')\<close>, the decoder
  \<^verbatim>\<open>Buffer.from(s, 'base64')\<close> and the clock \<^verbatim>\<open>Date.now()\<close>. They are parameters of
  the model: \<open>hmac key content\<close> is the base64 text of the digest, \<open>b64 s\<close> the bytes of
  the decoded buffer, \<open>now\<close> the clock in milliseconds.
\<close>

type_synonym buffer = "8 word list"

text \<open>\<^verbatim>\<open>s.split(d)\<close> for a one-character separator: the empty string gives \<^verbatim>\<open>['']\<close>.\<close>

fun split_on :: "char \<Rightarrow> string \<Rightarrow> string list" where
  "split_on d [] = [[]]"
| "split_on d (c # cs) =
     (if c = d then [] # split_on d cs
      else (case split_on d cs of [] \<Rightarrow> [[c]] | w # ws \<Rightarrow> (c # w) # ws))"

text \<open>\<^verbatim>\<open>s.replace(pat, '')\<close> with a string pattern: only the first occurrence goes.\<close>

fun remove_first :: "string \<Rightarrow> string \<Rightarrow> string" where
  "remove_first pat [] = []"
| "remove_first pat (c # cs) =
     (if take (length pat) (c # cs) = pat then drop (length pat) (c # cs)
      else c # remove_first pat cs)"

text \<open>
  \<^verbatim>\<open>parseInt(s, 10)\<close>: leading white space is skipped, one sign is read, then the longest
  run of decimal digits; \<open>None\<close> is \<^verbatim>\<open>NaN\<close>. A header value is a string of 8-bit
  characters, so the white space is the ASCII one and the no-break space.
\<close>

definition is_js_space :: "char \<Rightarrow> bool" where
  "is_js_space c \<longleftrightarrow> of_char c \<in> {9, 10, 11, 12, 13, 32, 160 :: nat}"

definition is_digit :: "char \<Rightarrow> bool" where
  "is_digit c \<longleftrightarrow> (48::nat) \<le> of_char c \<and> of_char c \<le> (57::nat)"

definition digit_val :: "char \<Rightarrow> int" where
  "digit_val c = int (of_char c) - 48"

definition digits_val :: "string \<Rightarrow> int" where
  "digits_val ds = foldl (\<lambda>acc c. 10 * acc + digit_val c) 0 ds"

definition parse_digits :: "string \<Rightarrow> int option" where
  "parse_digits s =
     (let ds = takeWhile is_digit s in if ds = [] then None else Some (digits_val ds))"

definition parseInt10 :: "string \<Rightarrow> int option" where
  "parseInt10 s =
     (case dropWhile is_js_space s of
        [] \<Rightarrow> None
      | c # cs \<Rightarrow>
          if c = CHR ''-'' then map_option uminus (parse_digits cs)
          else if c = CHR ''+'' then parse_digits cs
          else parse_digits (c # cs))"

text \<open>
  \<^verbatim>\<open>crypto.timingSafeEqual(a, b)\<close> throws when the two buffers differ in length
  (\<open>None\<close>), and compares them otherwise.
\<close>

definition timingSafeEqual :: "buffer \<Rightarrow> buffer \<Rightarrow> bool option" where
  "timingSafeEqual a b = (if length a \<noteq> length b then None else Some (a = b))"

text \<open>The \<^verbatim>\<open>try { return timingSafeEqual(...) } catch { return false }\<close> of the source.\<close>

definition sig_matches :: "(string \<Rightarrow> buffer) \<Rightarrow> string \<Rightarrow> string \<Rightarrow> bool" where
  "sig_matches b64 expectedSignature sig =
     (case timingSafeEqual (b64 sig) (b64 expectedSignature) of
        None \<Rightarrow> False
      | Some r \<Rightarrow> r)"

definition signedContent :: "string \<Rightarrow> string \<Rightarrow> string \<Rightarrow> string" where
  "signedContent webhookId timestamp body = webhookId @ ''.'' @ timestamp @ ''.'' @ body"

definition expectedSignature ::
  "(string \<Rightarrow> string \<Rightarrow> string) \<Rightarrow> string \<Rightarrow> string \<Rightarrow> string \<Rightarrow> string \<Rightarrow> string" where
  "expectedSignature hmac body webhookId timestamp secret =
     hmac (remove_first ''whsec_'' secret) (signedContent webhookId timestamp body)"

definition signatures :: "string \<Rightarrow> string list" where
  "signatures signature = map (\<lambda>s. last (split_on CHR '','' s)) (split_on CHR '' '' signature)"

text \<open>
  \<^verbatim>\<open>Math.abs(Date.now() / 1000 - parseInt(timestamp, 10)) < 300\<close>; a comparison with
  \<^verbatim>\<open>NaN\<close> is false. The clock is an integer number of milliseconds.
\<close>

definition isRecent :: "int \<Rightarrow> string \<Rightarrow> bool" where
  "isRecent now timestamp =
     (case parseInt10 timestamp of
        None \<Rightarrow> False
      | Some t \<Rightarrow> \<bar>(of_int now / 1000 :: rat) - of_int t\<bar> < 300)"

definition verifyWebhookSignature ::
  "(string \<Rightarrow> string \<Rightarrow> string) \<Rightarrow> (string \<Rightarrow> buffer) \<Rightarrow> int \<Rightarrow>
   string \<Rightarrow> string \<Rightarrow> string \<Rightarrow> string \<Rightarrow> string \<Rightarrow> bool" where
  "verifyWebhookSignature hmac b64 now body webhookId timestamp signature secret =
     (let expected = expectedSignature hmac body webhookId timestamp secret;
          isValid = list_ex (sig_matches b64 expected) (signatures signature)
      in isValid \<and> isRecent now timestamp)"


section \<open>Values, documents and the world (functions/index.js)\<close>

text \<open>
  Request bodies, callback payloads and some document fields are untyped JavaScript
  values. Objects are association lists, the first binding of a key being the property.
\<close>

datatype jsval =
    Undefined
  | Null
  | JBool bool
  | JNum rat
  | JStr string
  | JArr "jsval list"
  | JObj "(string \<times> jsval) list"

fun truthy :: "jsval \<Rightarrow> bool" where
  "truthy Undefined = False"
| "truthy Null = False"
| "truthy (JBool b) = b"
| "truthy (JNum n) = (n \<noteq> 0)"
| "truthy (JStr s) = (s \<noteq> [])"
| "truthy (JArr xs) = True"
| "truthy (JObj kvs) = True"

text \<open>\<^verbatim>\<open>typeof v === 'object'\<close> holds of \<^verbatim>\<open>null\<close>, arrays and objects.\<close>

fun typeof_object :: "jsval \<Rightarrow> bool" where
  "typeof_object Null = True"
| "typeof_object (JArr xs) = True"
| "typeof_object (JObj kvs) = True"
| "typeof_object v = False"

fun typeof_string :: "jsval \<Rightarrow> bool" where
  "typeof_string (JStr s) = True"
| "typeof_string v = False"

fun isArray :: "jsval \<Rightarrow> bool" where
  "isArray (JArr xs) = True"
| "isArray v = False"

text \<open>
  \<^verbatim>\<open>v.name\<close> for one of the names the handlers read (\<^verbatim>\<open>id\<close>, \<^verbatim>\<open>status\<close>,
  \<^verbatim>\<open>output\<close>, \<^verbatim>\<open>error\<close>, \<^verbatim>\<open>url\<close>, \<^verbatim>\<open>video\<close>): an array or a primitive has none of
  them. Reading a property of \<^verbatim>\<open>null\<close> or \<^verbatim>\<open>undefined\<close> throws; the callers below test
  for that before they use \<open>get_prop\<close>.
\<close>

fun get_prop :: "jsval \<Rightarrow> string \<Rightarrow> jsval" where
  "get_prop (JObj kvs) k = (case map_of kvs k of None \<Rightarrow> Undefined | Some v \<Rightarrow> v)"
| "get_prop v k = Undefined"

text \<open>\<^verbatim>\<open>v[0]\<close> on an object or an array.\<close>

fun index0 :: "jsval \<Rightarrow> jsval" where
  "index0 (JArr []) = Undefined"
| "index0 (JArr (x # xs)) = x"
| "index0 (JObj kvs) = get_prop (JObj kvs) ''0''"
| "index0 v = Undefined"

text \<open>\<^verbatim>\<open>a || b\<close>.\<close>

definition or_js :: "jsval \<Rightarrow> jsval \<Rightarrow> jsval" where
  "or_js a b = (if truthy a then a else b)"

datatype job_status = Pending | Processing | Completed | Failed

fun status_str :: "job_status \<Rightarrow> string" where
  "status_str Pending = ''pending''"
| "status_str Processing = ''processing''"
| "status_str Completed = ''completed''"
| "status_str Failed = ''failed''"

text \<open>A document of the collection \<^verbatim>\<open>jobs\<close>; time stamps are milliseconds.\<close>

record job =
  userId :: string
  inputImagePath :: string
  outputVideoPath :: "string option"
  status :: job_status
  danceStyle :: string
  replicateJobId :: jsval
  createdAt :: int
  completedAt :: "int option"
  errorMessage :: jsval

record user =
  email :: string
  userCreatedAt :: int
  subscriptionStatus :: string
  revenuecatUserId :: string

text \<open>
  What a handler does outside the database is logged, in order: a call of
  \<^verbatim>\<open>createPrediction\<close> (image locator, style), a \<^verbatim>\<open>fetch\<close> of a result, a write to
  and a delete from the bucket.
\<close>

datatype effect =
    InferenceCall string string
  | Download jsval
  | StorageWrite string
  | StorageDelete string

text \<open>
  The world: the two collections (document id and data, in the order a query returns
  them), the objects of the bucket, and the log.
\<close>

record world =
  jobs :: "(string \<times> job) list"
  users :: "(string \<times> user) list"
  files :: "string \<rightharpoonup> buffer"
  trace :: "effect list"

datatype fetch_result = FetchThrows | FetchNotOk string | FetchOk buffer

text \<open>
  The environment of one invocation: the Node services, the configuration read from
  \<^verbatim>\<open>process.env\<close>, and what each external collaborator answers during this invocation.
  A thrown \<^verbatim>\<open>Error\<close> is \<open>Inl\<close> of its message; \<open>thrownMessage\<close> is the message of an
  error thrown inside a library, whose text the repository does not fix; \<open>FetchNotOk\<close>
  carries the decimal text of the response status. \<open>save\<close>, \<open>delete\<close> and
  \<open>storageReadable\<close> say whether the bucket operation succeeds (it throws otherwise).
\<close>

record env =
  hmac :: "string \<Rightarrow> string \<Rightarrow> string"
  b64 :: "string \<Rightarrow> buffer"
  JSON_parse :: "string \<Rightarrow> jsval option"
  JSON_stringify :: "jsval \<Rightarrow> string"
  now :: int
  webhookSecret :: string
  skipWebhookVerify :: bool
  bucket :: bool
  storageSkipProbe :: bool
  mockMode :: bool
  mockVideoUrl :: string
  verifyIdToken :: "string \<Rightarrow> string + string \<times> string"
  newJobId :: string
  createPrediction :: "string \<Rightarrow> string \<Rightarrow> string + jsval"
  fetch :: "jsval \<Rightarrow> fetch_result"
  save :: "string \<Rightarrow> bool"
  delete :: "string \<Rightarrow> bool"
  storageReadable :: bool
  getSignedUrl :: "string \<Rightarrow> string option"
  thrownMessage :: string

datatype response = Resp nat jsval | Uncaught

definition json_error :: "nat \<Rightarrow> string \<Rightarrow> response" where
  "json_error code msg = Resp code (JObj [(''error'', JStr msg)])"

definition STORAGE_UNAVAILABLE_MSG :: string where
  "STORAGE_UNAVAILABLE_MSG =
     ''Video storage is being configured. Please try again later. (Storage requires billing setup)''"

definition FREE_USER_DAILY_LIMIT :: nat where
  "FREE_USER_DAILY_LIMIT = 2"

text \<open>\<^verbatim>\<open>error.message || 'Internal server error'\<close> of the outer \<^verbatim>\<open>catch\<close> blocks.\<close>

definition internal_error :: "string \<Rightarrow> response" where
  "internal_error msg = json_error 500 (if msg = [] then ''Internal server error'' else msg)"

text \<open>\<^verbatim>\<open>jobRef.update(fields)\<close> and \<^verbatim>\<open>ref.set(data)\<close> on the documents of a collection.\<close>

definition update_doc :: "string \<Rightarrow> ('d \<Rightarrow> 'd) \<Rightarrow> (string \<times> 'd) list \<Rightarrow> (string \<times> 'd) list" where
  "update_doc i f ds = map (\<lambda>(k, d). if k = i then (k, f d) else (k, d)) ds"

definition set_doc :: "string \<Rightarrow> 'd \<Rightarrow> (string \<times> 'd) list \<Rightarrow> (string \<times> 'd) list" where
  "set_doc i d ds =
     (if i \<in> fst ` set ds then update_doc i (\<lambda>_. d) ds else ds @ [(i, d)])"


section \<open>The completion callback \<^verbatim>\<open>replicateWebhook\<close>\<close>

text \<open>
  A \<^verbatim>\<open>POST\<close> to the callback endpoint of the current \<^verbatim>\<open>index.js\<close>: \<open>rawBody\<close> is the
  text the handler computes from \<^verbatim>\<open>req.body\<close> (the bytes received, when \<^verbatim>\<open>express.raw\<close>
  has left a buffer), and the three signature headers are absent or strings.
\<close>

record webhook_req =
  rawBody :: string
  webhook_id :: "string option"
  webhook_timestamp :: "string option"
  webhook_signature :: "string option"

text \<open>A header is used in a condition: absent and empty are both false.\<close>

definition present :: "string option \<Rightarrow> bool" where
  "present h = (case h of None \<Rightarrow> False | Some s \<Rightarrow> s \<noteq> [])"

definition hdr :: "string option \<Rightarrow> string" where
  "hdr h = (case h of None \<Rightarrow> [] | Some s \<Rightarrow> s)"

text \<open>
  The result locator, read from the loosely structured \<^verbatim>\<open>output\<close>:
  \<^verbatim>\<open>
  let videoUrl = typeof output === 'string' ? output : null;
  if (!videoUrl && typeof output === 'object') {
    videoUrl = output.url || output.video || output.output || output[0];
    if (Array.isArray(videoUrl)) videoUrl = videoUrl[0];
  }\<close>
\<close>

definition extractVideoUrl :: "jsval \<Rightarrow> jsval" where
  "extractVideoUrl output =
     (let videoUrl = (if typeof_string output then output else Null) in
      if \<not> truthy videoUrl \<and> typeof_object output then
        (let v = or_js (or_js (or_js (get_prop output ''url'') (get_prop output ''video''))
                        (get_prop output ''output'')) (index0 output)
         in if isArray v then index0 v else v)
      else videoUrl)"

definition outputPath_of :: "string \<Rightarrow> string \<Rightarrow> string" where
  "outputPath_of uid jobId = ''outputs/'' @ uid @ ''/'' @ jobId @ ''/dance.mp4''"

definition mark_failed :: "jsval \<Rightarrow> int \<Rightarrow> job \<Rightarrow> job" where
  "mark_failed msg t j = j\<lparr>status := Failed, errorMessage := msg, completedAt := Some t\<rparr>"

definition mark_completed :: "string \<Rightarrow> int \<Rightarrow> job \<Rightarrow> job" where
  "mark_completed path t j =
     j\<lparr>status := Completed, outputVideoPath := Some path, completedAt := Some t,
       errorMessage := Null\<rparr>"

definition ok200 :: response where
  "ok200 = Resp 200 (JStr ''OK'')"

definition processing_error :: response where
  "processing_error = Resp 500 (JStr ''Processing error'')"

text \<open>
  The body of the \<^verbatim>\<open>try\<close> block once a job has been found. Every \<^verbatim>\<open>throw\<close> in it
  is caught by the handler's \<^verbatim>\<open>catch\<close>, which answers 500.
\<close>

definition process_callback ::
  "env \<Rightarrow> string \<Rightarrow> job \<Rightarrow> jsval \<Rightarrow> jsval \<Rightarrow> jsval \<Rightarrow> world \<Rightarrow> response \<times> world" where
  "process_callback e jobId j cb_status output cb_error w =
     (if cb_status = JStr ''succeeded'' \<and> truthy output then
        (let videoUrl = extractVideoUrl output in
         if \<not> truthy videoUrl then (processing_error, w)
         else if \<not> bucket e then
           (ok200,
            w\<lparr>jobs := update_doc jobId (mark_failed (JStr STORAGE_UNAVAILABLE_MSG) (now e)) (jobs w)\<rparr>)
         else
           (let outputPath = outputPath_of (userId j) jobId;
                w1 = w\<lparr>trace := trace w @ [Download videoUrl]\<rparr>
            in case fetch e videoUrl of
                 FetchThrows \<Rightarrow> (processing_error, w1)
               | FetchNotOk code \<Rightarrow> (processing_error, w1)
               | FetchOk buf \<Rightarrow>
                   (let w2 = w1\<lparr>trace := trace w1 @ [StorageWrite outputPath]\<rparr> in
                    if \<not> save e outputPath then
                      (ok200,
                       w2\<lparr>jobs := update_doc jobId
                                    (mark_failed (JStr STORAGE_UNAVAILABLE_MSG) (now e)) (jobs w2)\<rparr>)
                    else
                      (ok200,
                       w2\<lparr>files := (files w2)(outputPath \<mapsto> buf),
                          jobs := update_doc jobId (mark_completed outputPath (now e)) (jobs w2)\<rparr>))))
      else if cb_status = JStr ''failed'' then
        (ok200,
         w\<lparr>jobs := update_doc jobId
                      (mark_failed (or_js cb_error (JStr ''Replicate job failed'')) (now e)) (jobs w)\<rparr>)
      else if cb_status = JStr ''canceled'' then
        (ok200,
         w\<lparr>jobs := update_doc jobId (mark_failed (JStr ''Job was canceled'') (now e)) (jobs w)\<rparr>)
      else (ok200, w))"

text \<open>
  From \<^verbatim>\<open>const replicateJobId = payload.id\<close> on. Reading \<^verbatim>\<open>payload.id\<close> of
  \<^verbatim>\<open>null\<close> throws outside the \<^verbatim>\<open>try\<close> block. The query is
  \<^verbatim>\<open>where('replicateJobId', '==', replicateJobId).limit(1)\<close>.
\<close>

definition find_by_replicateJobId :: "jsval \<Rightarrow> world \<Rightarrow> (string \<times> job) option" where
  "find_by_replicateJobId rid w = find (\<lambda>(i, j). replicateJobId j = rid) (jobs w)"

definition handle_payload :: "env \<Rightarrow> jsval \<Rightarrow> world \<Rightarrow> response \<times> world" where
  "handle_payload e payload w =
     (if payload = Null \<or> payload = Undefined then (Uncaught, w)
      else
        (let rid = get_prop payload ''id'';
             cb_status = get_prop payload ''status'';
             output = get_prop payload ''output'';
             cb_error = get_prop payload ''error''
         in if \<not> truthy rid then (Resp 400 (JStr ''Missing prediction id''), w)
            else (case find_by_replicateJobId rid w of
                    None \<Rightarrow> (ok200, w)
                  | Some (jobId, j) \<Rightarrow> process_callback e jobId j cb_status output cb_error w)))"

text \<open>The guard of the verification and its outcome.\<close>

definition verification_runs :: "env \<Rightarrow> webhook_req \<Rightarrow> bool" where
  "verification_runs e r \<longleftrightarrow>
     webhookSecret e \<noteq> [] \<and> present (webhook_id r) \<and> present (webhook_timestamp r) \<and>
     present (webhook_signature r) \<and> \<not> skipWebhookVerify e"

definition signature_ok ::
  "env \<Rightarrow> string \<Rightarrow> string option \<Rightarrow> string option \<Rightarrow> string option \<Rightarrow> bool" where
  "signature_ok e body wid wts wsig =
     verifyWebhookSignature (hmac e) (b64 e) (now e) body (hdr wid) (hdr wts) (hdr wsig)
       (webhookSecret e)"

text \<open>The handler \<^verbatim>\<open>webhookApp.post('*', ...)\<close> of the current \<^verbatim>\<open>index.js\<close>.\<close>

definition replicateWebhook :: "env \<Rightarrow> webhook_req \<Rightarrow> world \<Rightarrow> response \<times> world" where
  "replicateWebhook e r w =
     (if verification_runs e r \<and>
         \<not> signature_ok e (rawBody r) (webhook_id r) (webhook_timestamp r) (webhook_signature r)
      then
        (Resp 401 (JStr ''Invalid signature''), w)
      else (case JSON_parse e (rawBody r) of
              None \<Rightarrow> (Resp 400 (JStr ''Invalid JSON''), w)
            | Some payload \<Rightarrow> handle_payload e payload w))"

text \<open>
  The earlier \<^verbatim>\<open>index.js\<close>: the request carries \<^verbatim>\<open>req.rawBody\<close> (absent or a buffer)
  and the body parsed by the framework; the skip switch does not exist yet.
\<close>

record webhook_req_old =
  old_method :: string
  old_rawBody :: "string option"
  old_body :: jsval
  old_webhook_id :: "string option"
  old_webhook_timestamp :: "string option"
  old_webhook_signature :: "string option"

definition verification_runs_old :: "env \<Rightarrow> webhook_req_old \<Rightarrow> bool" where
  "verification_runs_old e r \<longleftrightarrow>
     webhookSecret e \<noteq> [] \<and> present (old_webhook_id r) \<and> present (old_webhook_timestamp r) \<and>
     present (old_webhook_signature r)"

definition rawBody_old :: "env \<Rightarrow> webhook_req_old \<Rightarrow> string" where
  "rawBody_old e r =
     (case old_rawBody r of None \<Rightarrow> JSON_stringify e (old_body r) | Some s \<Rightarrow> s)"

definition replicateWebhook_old ::
  "env \<Rightarrow> webhook_req_old \<Rightarrow> world \<Rightarrow> response \<times> world" where
  "replicateWebhook_old e r w =
     (if old_method r \<noteq> ''POST'' then (Resp 405 (JStr ''Method not allowed''), w)
      else if verification_runs_old e r \<and>
              \<not> signature_ok e (rawBody_old e r) (old_webhook_id r) (old_webhook_timestamp r)
                  (old_webhook_signature r)
      then (Resp 401 (JStr ''Invalid signature''), w)
      else if typeof_object (old_body r) then handle_payload e (old_body r) w
      else (case JSON_parse e (rawBody_old e r) of
              None \<Rightarrow> (Resp 400 (JStr ''Invalid JSON''), w)
            | Some payload \<Rightarrow> handle_payload e payload w))"

section \<open>\<^verbatim>\<open>createJob\<close> and \<^verbatim>\<open>startJob\<close>\<close>

text \<open>
  A request of the two authenticated endpoints: the method, the \<^verbatim>\<open>Authorization\<close>
  header and the fields read from \<^verbatim>\<open>req.body || {}\<close>.
\<close>

record api_req =
  http_method :: string
  authorization :: "string option"
  body_jobId :: jsval
  body_imageUrl :: jsval
  body_danceStyle :: jsval

text \<open>\<^verbatim>\<open>authHeader.split('Bearer ')[1]\<close> for a header that starts with \<^verbatim>\<open>'Bearer '\<close>.\<close>

fun before_sep :: "string \<Rightarrow> string \<Rightarrow> string" where
  "before_sep sep [] = []"
| "before_sep sep (c # cs) =
     (if take (length sep) (c # cs) = sep then [] else c # before_sep sep cs)"

definition idToken_of :: "string \<Rightarrow> string" where
  "idToken_of authHeader = before_sep ''Bearer '' (drop 7 authHeader)"

definition startsWith :: "string \<Rightarrow> string \<Rightarrow> bool" where
  "startsWith s p \<longleftrightarrow> take (length p) s = p"

text \<open>
  \<^verbatim>\<open>db.collection('jobs').doc(jobId)\<close>. The Firestore client throws unless the
  argument is a non-empty string without \<^verbatim>\<open>//\<close>; it splits the string at the slashes,
  drops the empty segments (a slash at either end is allowed), and throws unless an odd
  number of segments is left, so that the path names a document. One segment is the
  identifier of a job; more segments name a document of a subcollection, and the code
  creates none.
\<close>

fun has_double_slash :: "string \<Rightarrow> bool" where
  "has_double_slash (a # b # cs) = (a = CHR ''/'' \<and> b = CHR ''/'' \<or> has_double_slash (b # cs))"
| "has_double_slash cs = False"

definition doc_segments :: "string \<Rightarrow> string list" where
  "doc_segments s = filter (\<lambda>seg. seg \<noteq> []) (split_on CHR ''/'' s)"

definition valid_doc_path :: "string \<Rightarrow> bool" where
  "valid_doc_path s \<longleftrightarrow> s \<noteq> [] \<and> \<not> has_double_slash s \<and> odd (length (doc_segments s))"

definition get_job :: "string \<Rightarrow> world \<Rightarrow> job option" where
  "get_job jobId w = map_of (jobs w) jobId"

text \<open>
  \<^verbatim>\<open>checkRateLimit(userId)\<close> of the current \<^verbatim>\<open>index.js\<close>. \<^verbatim>\<open>dayAgo\<close> is
  \<^verbatim>\<open>new Date()\<close> moved back by one day of the calendar, 24 hours on a server whose
  time zone has no daylight saving (UTC).
\<close>

definition dayAgo :: "int \<Rightarrow> int" where
  "dayAgo t = t - 24 * 60 * 60 * 1000"

definition counts_for_quota :: "int \<Rightarrow> string \<Rightarrow> job \<Rightarrow> bool" where
  "counts_for_quota t uid j \<longleftrightarrow>
     userId j = uid \<and> status j \<in> {Processing, Completed} \<and> dayAgo t \<le> createdAt j"

definition jobsSnapshot :: "int \<Rightarrow> string \<Rightarrow> world \<Rightarrow> (string \<times> job) list" where
  "jobsSnapshot t uid w = filter (\<lambda>(i, j). counts_for_quota t uid j) (jobs w)"

definition is_active_user :: "string \<Rightarrow> world \<Rightarrow> bool" where
  "is_active_user uid w =
     (case map_of (users w) uid of None \<Rightarrow> False | Some u \<Rightarrow> subscriptionStatus u = ''active'')"

definition FREE_TIER_MSG :: string where
  "FREE_TIER_MSG = ''Free tier limit: 2 videos per day. Upgrade for unlimited!''"

definition checkRateLimit :: "env \<Rightarrow> string \<Rightarrow> world \<Rightarrow> string + bool" where
  "checkRateLimit e uid w =
     (if is_active_user uid w then Inr True
      else if FREE_USER_DAILY_LIMIT \<le> length (jobsSnapshot (now e) uid w) then Inl FREE_TIER_MSG
      else Inr True)"

text \<open>\<^verbatim>\<open>verifyStorageWritable(userId, jobId)\<close>: a probe object is written and deleted.\<close>

definition probe_bytes :: buffer where
  "probe_bytes = map (\<lambda>c. of_nat (of_char c)) ''probe''"

definition verifyStorageWritable :: "env \<Rightarrow> string \<Rightarrow> string \<Rightarrow> world \<Rightarrow> bool \<times> world" where
  "verifyStorageWritable e uid jobId w =
     (if \<not> bucket e then (False, w)
      else if storageSkipProbe e then (True, w)
      else
        (let p = ''outputs/'' @ uid @ ''/'' @ jobId @ ''/.probe'';
             w1 = w\<lparr>trace := trace w @ [StorageWrite p]\<rparr>
         in if \<not> save e p then (False, w1)
            else
              (let w2 = w1\<lparr>files := (files w1)(p \<mapsto> probe_bytes),
                          trace := trace w1 @ [StorageDelete p]\<rparr>
               in if \<not> delete e p then (False, w2)
                  else (True, w2\<lparr>files := (files w2)(p := None)\<rparr>))))"

text \<open>
  From \<^verbatim>\<open>const prediction = await createPrediction(...)\<close> to the end of \<^verbatim>\<open>startJob\<close>,
  the same in both versions; \<open>reqJobId\<close> is the \<^verbatim>\<open>jobId\<close> of the request, echoed in the
  answer, and \<open>jobId\<close> is \<^verbatim>\<open>jobRef.id\<close>. The call is logged before its outcome is known.
  \<^verbatim>\<open>prediction.id\<close> throws on \<^verbatim>\<open>null\<close>, and \<^verbatim>\<open>jobRef.update\<close> rejects the value
  \<^verbatim>\<open>undefined\<close>; both end in the \<^verbatim>\<open>catch\<close> block.
\<close>

definition mark_processing :: "jsval \<Rightarrow> job \<Rightarrow> job" where
  "mark_processing pid j = j\<lparr>status := Processing, replicateJobId := pid\<rparr>"

definition start_prediction ::
  "env \<Rightarrow> jsval \<Rightarrow> string \<Rightarrow> job \<Rightarrow> string \<Rightarrow> world \<Rightarrow> response \<times> world" where
  "start_prediction e reqJobId jobId j imageUrl w =
     (let w1 = w\<lparr>trace := trace w @ [InferenceCall imageUrl (danceStyle j)]\<rparr> in
      case createPrediction e imageUrl (danceStyle j) of
        Inl msg \<Rightarrow> (internal_error msg, w1)
      | Inr prediction \<Rightarrow>
          if prediction = Null \<or> prediction = Undefined \<or> get_prop prediction ''id'' = Undefined
          then (internal_error (thrownMessage e), w1)
          else
            (Resp 200 (JObj [(''jobId'', reqJobId),
                             (''replicateJobId'', get_prop prediction ''id''),
                             (''status'', JStr ''processing'')]),
             w1\<lparr>jobs := update_doc jobId (mark_processing (get_prop prediction ''id'')) (jobs w1)\<rparr>))"

text \<open>The mock branch of the current \<^verbatim>\<open>startJob\<close> (\<^verbatim>\<open>REPLICATE_MOCK=1\<close>).\<close>

definition mock_failed :: "string \<Rightarrow> response" where
  "mock_failed msg = json_error 500 (''Mock mode failed: '' @ msg)"

definition mark_mock_completed :: "string \<Rightarrow> string \<Rightarrow> int \<Rightarrow> job \<Rightarrow> job" where
  "mark_mock_completed path jobId t j =
     j\<lparr>status := Completed, outputVideoPath := Some path,
       replicateJobId := JStr (''mock-'' @ jobId), completedAt := Some t, errorMessage := Null\<rparr>"

definition start_mock ::
  "env \<Rightarrow> jsval \<Rightarrow> string \<Rightarrow> string \<Rightarrow> world \<Rightarrow> response \<times> world" where
  "start_mock e reqJobId uid jobId w =
     (let outputPath = outputPath_of uid jobId;
          w1 = w\<lparr>trace := trace w @ [Download (JStr (mockVideoUrl e))]\<rparr>
      in case fetch e (JStr (mockVideoUrl e)) of
           FetchThrows \<Rightarrow> (mock_failed (thrownMessage e), w1)
         | FetchNotOk code \<Rightarrow> (mock_failed (''Mock video fetch failed: '' @ code), w1)
         | FetchOk buf \<Rightarrow>
             (let w2 = w1\<lparr>trace := trace w1 @ [StorageWrite outputPath]\<rparr> in
              if \<not> save e outputPath then (mock_failed (thrownMessage e), w2)
              else
                (Resp 200 (JObj [(''jobId'', reqJobId), (''status'', JStr ''completed''),
                                 (''mock'', JBool True)]),
                 w2\<lparr>files := (files w2)(outputPath \<mapsto> buf),
                    jobs := update_doc jobId (mark_mock_completed outputPath jobId (now e)) (jobs w2)\<rparr>)))"

text \<open>
  The current \<^verbatim>\<open>startJob\<close> after the rate limit: the image locator comes from the
  caller, and the bucket is probed for writing.
\<close>

definition IMAGE_URL_REQUIRED :: string where
  "IMAGE_URL_REQUIRED =
     ''imageUrl is required. Upload image first, then call startJob with the download URL.''"

definition startJob_run ::
  "env \<Rightarrow> jsval \<Rightarrow> string \<Rightarrow> string \<Rightarrow> job \<Rightarrow> jsval \<Rightarrow> world \<Rightarrow> response \<times> world" where
  "startJob_run e reqJobId uid jobId j imageUrl w =
     (case imageUrl of
        JStr url \<Rightarrow>
          if url = [] then (json_error 400 IMAGE_URL_REQUIRED, w)
          else if \<not> startsWith url ''http'' then
            (json_error 400 ''imageUrl must be a valid HTTP URL'', w)
          else if \<not> bucket e then (json_error 503 STORAGE_UNAVAILABLE_MSG, w)
          else
            (case verifyStorageWritable e uid jobId w of
               (canWrite, w1) \<Rightarrow>
                 if \<not> canWrite then (json_error 503 STORAGE_UNAVAILABLE_MSG, w1)
                 else if mockMode e then start_mock e reqJobId uid jobId w1
                 else start_prediction e reqJobId jobId j url w1)
      | _ \<Rightarrow> (json_error 400 IMAGE_URL_REQUIRED, w))"

text \<open>
  The checks on the job, shared by both versions of \<^verbatim>\<open>startJob\<close>; \<open>k\<close> is what follows
  them. \<^verbatim>\<open>validateSubscription\<close> is awaited after them and its result is dropped; it
  catches its own errors, so it is not part of the model.
\<close>

definition with_pending_job ::
  "env \<Rightarrow> string \<Rightarrow> jsval \<Rightarrow> world \<Rightarrow> (string \<Rightarrow> job \<Rightarrow> response \<times> world) \<Rightarrow> response \<times> world" where
  "with_pending_job e uid jobId w k =
     (if \<not> truthy jobId then (json_error 400 ''jobId is required'', w)
      else (case jobId of
              JStr s \<Rightarrow>
                if \<not> valid_doc_path s then (internal_error (thrownMessage e), w)
                else (case doc_segments s of
                        [jid] \<Rightarrow>
                          (case get_job jid w of
                             None \<Rightarrow> (json_error 404 ''Job not found'', w)
                           | Some j \<Rightarrow>
                               if userId j \<noteq> uid then (json_error 403 ''Unauthorized'', w)
                               else if status j \<noteq> Pending then
                                 (json_error 400 (''Job already '' @ status_str (status j)), w)
                               else k jid j)
                      | _ \<Rightarrow> (json_error 404 ''Job not found'', w))
            | _ \<Rightarrow> (internal_error (thrownMessage e), w)))"

text \<open>The method and the bearer token, the same in every authenticated endpoint.\<close>

definition authenticated ::
  "env \<Rightarrow> api_req \<Rightarrow> world \<Rightarrow> (string \<times> string \<Rightarrow> response \<times> world) \<Rightarrow> response \<times> world" where
  "authenticated e r w k =
     (if http_method r = ''OPTIONS'' then (Resp 204 (JStr []), w)
      else if http_method r \<noteq> ''POST'' then (json_error 405 ''Method not allowed'', w)
      else (case authorization r of
              None \<Rightarrow> (json_error 401 ''Missing or invalid Authorization header'', w)
            | Some authHeader \<Rightarrow>
                if \<not> startsWith authHeader ''Bearer '' then
                  (json_error 401 ''Missing or invalid Authorization header'', w)
                else (case verifyIdToken e (idToken_of authHeader) of
                        Inl msg \<Rightarrow> (internal_error msg, w)
                      | Inr decodedToken \<Rightarrow> k decodedToken)))"

definition startJob :: "env \<Rightarrow> api_req \<Rightarrow> world \<Rightarrow> response \<times> world" where
  "startJob e r w =
     authenticated e r w (\<lambda>(uid, mail).
       with_pending_job e uid (body_jobId r) w (\<lambda>jid j.
         case checkRateLimit e uid w of
           Inl msg \<Rightarrow> (internal_error msg, w)
         | Inr ok \<Rightarrow> startJob_run e (body_jobId r) uid jid j (body_imageUrl r) w))"



text \<open>\<^verbatim>\<open>createJob\<close> of the current \<^verbatim>\<open>index.js\<close>, with \<^verbatim>\<open>getOrCreateUser\<close>.\<close>

definition validStyles :: "string list" where
  "validStyles = [''hip-hop'', ''ballet'', ''disco'', ''breakdance'', ''salsa'', ''robot'']"

definition getOrCreateUser :: "env \<Rightarrow> string \<Rightarrow> string \<Rightarrow> world \<Rightarrow> world" where
  "getOrCreateUser e uid mail w =
     (if map_of (users w) uid = None then
        w\<lparr>users := set_doc uid
             \<lparr>email = mail, userCreatedAt = now e, subscriptionStatus = ''none'',
              revenuecatUserId = uid\<rparr> (users w)\<rparr>
      else w)"

definition new_job :: "env \<Rightarrow> string \<Rightarrow> string \<Rightarrow> string \<Rightarrow> job" where
  "new_job e uid uploadPath style =
     \<lparr>userId = uid, inputImagePath = uploadPath, outputVideoPath = None, status = Pending,
      danceStyle = style, replicateJobId = Null, createdAt = now e, completedAt = None,
      errorMessage = Null\<rparr>"

definition createJob :: "env \<Rightarrow> api_req \<Rightarrow> world \<Rightarrow> response \<times> world" where
  "createJob e r w =
     authenticated e r w (\<lambda>(uid, mail).
       case body_danceStyle r of
         JStr style \<Rightarrow>
           if style = [] then (json_error 400 ''danceStyle is required'', w)
           else if style \<notin> set validStyles then
             (json_error 400
                ''Invalid danceStyle. Allowed: hip-hop, ballet, disco, breakdance, salsa, robot'', w)
           else
             (let w1 = getOrCreateUser e uid mail w;
                  jobId = newJobId e;
                  uploadPath = ''uploads/'' @ uid @ ''/'' @ jobId @ ''/original.jpg''
              in (Resp 200 (JObj [(''jobId'', JStr jobId), (''uploadPath'', JStr uploadPath)]),
                  w1\<lparr>jobs := set_doc jobId (new_job e uid uploadPath style) (jobs w1)\<rparr>))
       | _ \<Rightarrow> (json_error 400 ''danceStyle is required'', w))"

text \<open>One operation of the current service, and a run of several.\<close>

datatype operation =
    CreateJob env api_req
  | StartJob env api_req
  | Callback env webhook_req

fun step :: "operation \<Rightarrow> world \<Rightarrow> response \<times> world" where
  "step (CreateJob e r) w = createJob e r w"
| "step (StartJob e r) w = startJob e r w"
| "step (Callback e r) w = replicateWebhook e r w"

fun run :: "operation list \<Rightarrow> world \<Rightarrow> world" where
  "run [] w = w"
| "run (op # ops) w = run ops (snd (step op w))"

text \<open>
  Along a run, \<^verbatim>\<open>db.collection('jobs').doc()\<close> hands out an identifier that no document
  of the collection has yet.
\<close>

fun fresh_ids :: "operation list \<Rightarrow> world \<Rightarrow> bool" where
  "fresh_ids [] w = True"
| "fresh_ids (CreateJob e r # ops) w =
     (newJobId e \<notin> fst ` set (jobs w) \<and> fresh_ids ops (snd (step (CreateJob e r) w)))"
| "fresh_ids (op # ops) w = fresh_ids ops (snd (step op w))"

text \<open>The order of the life cycle: pending, then processing, then the two final states.\<close>

fun rank :: "job_status \<Rightarrow> nat" where
  "rank Pending = 0"
| "rank Processing = 1"
| "rank Completed = 2"
| "rank Failed = 2"

section \<open>A concrete environment\<close>

text \<open>
  The theorems below hold for every digest, decoder, parser and collaborator. To apply
  them to concrete requests, the parameters are instantiated once: a digest that joins
  key and content (comma and space replaced, as a base64 text has neither), a decoder
  that reads a text as its own bytes, a parser that knows five callback bodies, a token \<^verbatim>\<open>tok-u1\<close> of the user \<^verbatim>\<open>u1\<close>, and collaborators that succeed.
\<close>

definition sample_hmac :: "string \<Rightarrow> string \<Rightarrow> string" where
  "sample_hmac key content =
     key @ ''/'' @ map (\<lambda>c. if c = CHR '','' \<or> c = CHR '' '' then CHR ''_'' else c) content"

definition sample_b64 :: "string \<Rightarrow> buffer" where
  "sample_b64 s = map (\<lambda>c. of_nat (of_char c)) s"

definition body_succeeded :: string where
  \<open>body_succeeded = ''{"id":"pred-1","status":"succeeded","output":"https://cdn/vid.mp4"}''\<close>

definition body_failed :: string where
  \<open>body_failed = ''{"id":"pred-1","status":"failed","error":"boom"}''\<close>

definition body_no_url :: string where
  \<open>body_no_url = ''{"id":"pred-1","status":"succeeded","output":{"frames":24}}''\<close>

definition body_no_output :: string where
  \<open>body_no_output = ''{"id":"pred-1","status":"succeeded"}''\<close>

definition body_progress :: string where
  \<open>body_progress = ''{"id":"pred-1","status":"processing"}''\<close>

definition sample_parse :: "string \<Rightarrow> jsval option" where
  "sample_parse s =
     (if s = body_succeeded then
        Some (JObj [(''id'', JStr ''pred-1''), (''status'', JStr ''succeeded''),
                    (''output'', JStr ''https://cdn/vid.mp4'')])
      else if s = body_failed then
        Some (JObj [(''id'', JStr ''pred-1''), (''status'', JStr ''failed''),
                    (''error'', JStr ''boom'')])
      else if s = body_no_url then
        Some (JObj [(''id'', JStr ''pred-1''), (''status'', JStr ''succeeded''),
                    (''output'', JObj [(''frames'', JNum 24)])])
      else if s = body_no_output then
        Some (JObj [(''id'', JStr ''pred-1''), (''status'', JStr ''succeeded'')])
      else if s = body_progress then
        Some (JObj [(''id'', JStr ''pred-1''), (''status'', JStr ''processing'')])
      else None)"

definition sample_verifyIdToken :: "string \<Rightarrow> string + string \<times> string" where
  "sample_verifyIdToken tok =
     (if tok = ''tok-u1'' then Inr (''u1'', ''u1@example.com'') else Inl ''invalid token'')"

definition sample_env :: env where
  "sample_env =
     \<lparr>hmac = sample_hmac, b64 = sample_b64, JSON_parse = sample_parse,
      JSON_stringify = (\<lambda>v. []), now = 1000000, webhookSecret = ''whsec_k'',
      skipWebhookVerify = False, bucket = True, storageSkipProbe = False, mockMode = False,
      mockVideoUrl = ''https://download.samplelib.com/mp4/sample-5s.mp4'',
      verifyIdToken = sample_verifyIdToken, newJobId = ''j2'',
      createPrediction = (\<lambda>imageUrl style. Inr (JObj [(''id'', JStr ''pred-1'')])),
      fetch = (\<lambda>url. FetchOk []), save = (\<lambda>path. True), delete = (\<lambda>path. True),
      storageReadable = True, getSignedUrl = (\<lambda>path. Some (''https://signed/'' @ path)),
      thrownMessage = ''error''\<rparr>"

text \<open>A callback signed as the provider signs it, and one without the three headers.\<close>

definition signed_req :: "string \<Rightarrow> webhook_req" where
  "signed_req body =
     \<lparr>rawBody = body, webhook_id = Some ''msg1'', webhook_timestamp = Some ''1000'',
      webhook_signature = Some (''v1,'' @ sample_hmac ''k'' (''msg1.1000.'' @ body))\<rparr>"

definition forged_req :: "string \<Rightarrow> webhook_req" where
  "forged_req body =
     \<lparr>rawBody = body, webhook_id = Some ''msg1'', webhook_timestamp = Some ''1000'',
      webhook_signature = Some ''v1,forged''\<rparr>"

definition bare_req :: "string \<Rightarrow> webhook_req" where
  "bare_req body =
     \<lparr>rawBody = body, webhook_id = None, webhook_timestamp = None, webhook_signature = None\<rparr>"

definition forged_req_old :: "string \<Rightarrow> webhook_req_old" where
  "forged_req_old body =
     \<lparr>old_method = ''POST'', old_rawBody = Some body, old_body = Undefined,
      old_webhook_id = Some ''msg1'', old_webhook_timestamp = Some ''1000'',
      old_webhook_signature = Some ''v1,forged''\<rparr>"

text \<open>The job \<^verbatim>\<open>j1\<close> of \<^verbatim>\<open>u1\<close>, in a given state, alone in the world.\<close>

definition sample_job :: "job_status \<Rightarrow> jsval \<Rightarrow> string option \<Rightarrow> job" where
  "sample_job st rid out =
     \<lparr>userId = ''u1'', inputImagePath = ''uploads/u1/j1/original.jpg'', outputVideoPath = out,
      status = st, danceStyle = ''disco'', replicateJobId = rid, createdAt = 900000,
      completedAt = None, errorMessage = Null\<rparr>"

definition sample_world :: "job_status \<Rightarrow> jsval \<Rightarrow> string option \<Rightarrow> world" where
  "sample_world st rid out =
     \<lparr>jobs = [(''j1'', sample_job st rid out)], users = [], files = Map.empty, trace = []\<rparr>"

definition start_req :: "string \<Rightarrow> api_req" where
  "start_req jobId =
     \<lparr>http_method = ''POST'', authorization = Some ''Bearer tok-u1'', body_jobId = JStr jobId,
      body_imageUrl = JStr ''https://img/pet.jpg'', body_danceStyle = Undefined\<rparr>"

text \<open>The same environment with a bucket, a download and a write that may fail.\<close>

definition sample_env_with :: "bool \<Rightarrow> fetch_result \<Rightarrow> bool \<Rightarrow> env" where
  "sample_env_with has_bucket fetched saved =
     sample_env\<lparr>bucket := has_bucket, fetch := (\<lambda>url. fetched), save := (\<lambda>path. saved)\<rparr>"

text \<open>
  Three jobs of \<^verbatim>\<open>u1\<close> created within the last day: one processing, one completed, one
  pending; \<^verbatim>\<open>u1\<close> has the given subscription status. A fourth job is of \<^verbatim>\<open>u2\<close>.
\<close>

definition sample_user :: "string \<Rightarrow> user" where
  "sample_user sub =
     \<lparr>email = ''u1@example.com'', userCreatedAt = 0, subscriptionStatus = sub,
      revenuecatUserId = ''u1''\<rparr>"

definition quota_world :: "string \<Rightarrow> world" where
  "quota_world sub =
     \<lparr>jobs = [(''j1'', sample_job Processing (JStr ''pred-1'') None),
              (''j2'', sample_job Completed (JStr ''pred-2'') (Some ''outputs/u1/j2/dance.mp4'')),
              (''j3'', sample_job Pending Null None),
              (''j4'', (sample_job Pending Null None)\<lparr>userId := ''u2''\<rparr>)],
      users = [(''u1'', sample_user sub)], files = Map.empty, trace = []\<rparr>"

text \<open>
  The shape of a signature header: one or more candidates separated by single spaces,
  each a signature with or without a version tag and a comma in front of it.
\<close>

definition candidate :: "string option \<Rightarrow> string \<Rightarrow> string" where
  "candidate tag sig = (case tag of None \<Rightarrow> sig | Some t \<Rightarrow> t @ CHR '','' # sig)"

fun header_of :: "(string option \<times> string) list \<Rightarrow> string" where
  "header_of [] = []"
| "header_of [(tag, sig)] = candidate tag sig"
| "header_of ((tag, sig) # cs) = candidate tag sig @ CHR '' '' # header_of cs"

definition plain_candidate :: "string option \<times> string \<Rightarrow> bool" where
  "plain_candidate c \<longleftrightarrow>
     CHR '' '' \<notin> set (snd c) \<and> CHR '','' \<notin> set (snd c) \<and>
     (case fst c of None \<Rightarrow> True | Some t \<Rightarrow> CHR '' '' \<notin> set t)"

section \<open>Properties of the signature verification\<close>

lemma split_on_not_Nil: "split_on d s \<noteq> []"
  by (induction s) (auto split: list.splits)

lemma split_on_append_sep: "split_on d (a @ d # b) = split_on d a @ split_on d b"
proof (induction a)
  case Nil
  show ?case by simp
next
  case (Cons x a)
  show ?case
  proof (cases "split_on d a")
    case Nil
    then show ?thesis using split_on_not_Nil [of d a] by simp
  next
    case (Cons w ws)
    with Cons.IH show ?thesis by simp
  qed
qed

lemma split_on_prefix_no_sep:
  "d \<notin> set a \<Longrightarrow> split_on d (a @ s) = (a @ hd (split_on d s)) # tl (split_on d s)"
proof (induction a)
  case Nil
  then show ?case using split_on_not_Nil [of d s] by simp
next
  case (Cons x a)
  then show ?case using split_on_not_Nil [of d s] by (auto split: list.splits)
qed

lemma last_split_on_tag: "last (split_on d (a @ d # b)) = last (split_on d b)"
  by (simp add: split_on_append_sep split_on_not_Nil)

lemma signatures_tag:
  assumes "CHR '' '' \<notin> set tag"
  shows "signatures (tag @ CHR '','' # rest) = signatures rest"
proof -
  obtain w ws where sp: "split_on CHR '' '' rest = w # ws"
    using split_on_not_Nil [of "CHR '' ''" rest] by (cases "split_on CHR '' '' rest") auto
  have "CHR '' '' \<notin> set (tag @ [CHR '',''])" using assms by simp
  then have "split_on CHR '' '' ((tag @ [CHR '','']) @ rest) = ((tag @ [CHR '','']) @ w) # ws"
    using split_on_prefix_no_sep [of "CHR '' ''" "tag @ [CHR '','']" rest] sp by simp
  then show ?thesis
    using sp last_split_on_tag [of "CHR '',''" tag w] by (simp add: signatures_def)
qed

lemma sig_matches_iff: "sig_matches D expected s \<longleftrightarrow> D s = D expected"
  by (auto simp: sig_matches_def timingSafeEqual_def)




lemmas parse_defs =
  parseInt10_def parse_digits_def digits_val_def digit_val_def is_digit_def is_js_space_def

lemmas verifier_defs =
  verifyWebhookSignature_def expectedSignature_def signedContent_def signatures_def
  sig_matches_def timingSafeEqual_def isRecent_def parse_defs sample_hmac_def sample_b64_def

lemma candidate_last:
  assumes "plain_candidate c"
  shows "last (split_on CHR '','' (candidate (fst c) (snd c))) = snd c"
proof (cases "fst c")
  case None
  then show ?thesis
    using assms split_on_prefix_no_sep [of "CHR '',''" "snd c" "[]"]
    by (simp add: candidate_def plain_candidate_def)
next
  case (Some t)
  have "last (split_on CHR '','' (t @ CHR '','' # snd c)) = last (split_on CHR '','' (snd c))"
    by (rule last_split_on_tag)
  also have "\<dots> = snd c"
    using assms split_on_prefix_no_sep [of "CHR '',''" "snd c" "[]"]
    by (simp add: plain_candidate_def)
  finally show ?thesis using Some by (simp add: candidate_def)
qed

lemma candidate_no_space:
  "plain_candidate c \<Longrightarrow> CHR '' '' \<notin> set (candidate (fst c) (snd c))"
  by (cases "fst c") (auto simp: candidate_def plain_candidate_def)

lemma split_header:
  "cs \<noteq> [] \<Longrightarrow> \<forall>c \<in> set cs. plain_candidate c \<Longrightarrow>
   split_on CHR '' '' (header_of cs) = map (\<lambda>c. candidate (fst c) (snd c)) cs"
proof (induction cs rule: header_of.induct)
  case 1
  then show ?case by simp
next
  case (2 tag sig)
  then show ?case
    using candidate_no_space [of "(tag, sig)"]
      split_on_prefix_no_sep [of "CHR '' ''" "candidate tag sig" "[]"]
    by simp
next
  case (3 tag sig c cs)
  have n: "CHR '' '' \<notin> set (candidate tag sig)"
    using 3(3) candidate_no_space [of "(tag, sig)"] by simp
  have "split_on CHR '' '' (candidate tag sig @ CHR '' '' # header_of (c # cs)) =
      split_on CHR '' '' (candidate tag sig) @ split_on CHR '' '' (header_of (c # cs))"
    by (rule split_on_append_sep)
  moreover have "split_on CHR '' '' (candidate tag sig) = [candidate tag sig]"
    using n split_on_prefix_no_sep [of "CHR '' ''" "candidate tag sig" "[]"] by simp
  moreover have "split_on CHR '' '' (header_of (c # cs)) =
      map (\<lambda>c. candidate (fst c) (snd c)) (c # cs)"
    using 3 by simp
  ultimately show ?case by simp
qed

lemma signatures_header:
  assumes "cs \<noteq> []" and "\<forall>c \<in> set cs. plain_candidate c"
  shows "signatures (header_of cs) = map snd cs"
proof -
  have "map (\<lambda>s. last (split_on CHR '','' s)) (map (\<lambda>c. candidate (fst c) (snd c)) cs) = map snd cs"
    using assms(2) by (induction cs) (simp_all add: candidate_last)
  then show ?thesis
    using split_header [OF assms] by (simp add: signatures_def)
qed




text \<open>
  C9: only the text after the last comma of each space-separated candidate is compared,
  and the version tag is never looked at. For a header of one or more candidates, each a
  signature with any tag (\<^verbatim>\<open>v1\<close>, \<^verbatim>\<open>v2\<close>, any other text without a space) or with no
  tag at all, the verification succeeds exactly when the signature of some candidate
  decodes to the bytes of the expected digest and the time stamp is recent: the tags do
  not occur in the condition. Moreover a tag put in front of any header never changes
  the result.
\<close>

theorem version_tag_ignored:
  assumes "cs \<noteq> []" and "\<forall>c \<in> set cs. plain_candidate c"
  shows
   "(verifyWebhookSignature H D clock body webhookId timestamp (header_of cs) secret \<longleftrightarrow>
       (\<exists>c \<in> set cs. D (snd c) = D (expectedSignature H body webhookId timestamp secret)) \<and>
       isRecent clock timestamp) \<and>
    (CHR '' '' \<notin> set tag \<longrightarrow>
       verifyWebhookSignature H D clock body webhookId timestamp (tag @ CHR '','' # rest) secret =
       verifyWebhookSignature H D clock body webhookId timestamp rest secret)"
proof
  show "verifyWebhookSignature H D clock body webhookId timestamp (header_of cs) secret \<longleftrightarrow>
       (\<exists>c \<in> set cs. D (snd c) = D (expectedSignature H body webhookId timestamp secret)) \<and>
       isRecent clock timestamp"
    using signatures_header [OF assms]
    by (auto simp: verifyWebhookSignature_def list_ex_iff sig_matches_iff)
  show "CHR '' '' \<notin> set tag \<longrightarrow>
       verifyWebhookSignature H D clock body webhookId timestamp (tag @ CHR '','' # rest) secret =
       verifyWebhookSignature H D clock body webhookId timestamp rest secret"
    by (simp add: verifyWebhookSignature_def signatures_tag)
qed

theorem version_tag_ignored_witness:
  "verifyWebhookSignature sample_hmac sample_b64 1000000 ''{}'' ''msg1'' ''1000''
     ''v1,AAAA v7,k/msg1.1000.{}'' ''whsec_k'' \<and>
   verifyWebhookSignature sample_hmac sample_b64 1000000 ''{}'' ''msg1'' ''1000''
     ''k/msg1.1000.{}'' ''whsec_k'' \<and>
   \<not> verifyWebhookSignature sample_hmac sample_b64 1000000 ''{}'' ''msg1'' ''1000''
     ''v1,AAAA'' ''whsec_k'' \<and>
   \<not> verifyWebhookSignature sample_hmac sample_b64 1000000 ''{}'' ''msg1'' ''2000''
     ''v1,k/msg1.2000.{}'' ''whsec_k''"
proof -
  let ?d = "''k/msg1.1000.{}''"
  have x: "expectedSignature sample_hmac ''{}'' ''msg1'' ''1000'' ''whsec_k'' = ?d"
    and x2: "expectedSignature sample_hmac ''{}'' ''msg1'' ''2000'' ''whsec_k'' = ''k/msg1.2000.{}''"
    by (simp_all add: expectedSignature_def signedContent_def sample_hmac_def)
  have r: "isRecent 1000000 ''1000''" and nr: "\<not> isRecent 1000000 ''2000''"
    by (simp_all add: isRecent_def parse_defs)
  have p: "plain_candidate (Some ''v1'', ''AAAA'')" "plain_candidate (Some ''v7'', ?d)"
    "plain_candidate (None, ?d)" "plain_candidate (Some ''v1'', ''k/msg1.2000.{}'')"
    by (simp_all add: plain_candidate_def)
  note t = version_tag_ignored [where H = sample_hmac and D = sample_b64 and clock = 1000000
      and body = "''{}''" and webhookId = "''msg1''" and secret = "''whsec_k''"]
  have "verifyWebhookSignature sample_hmac sample_b64 1000000 ''{}'' ''msg1'' ''1000''
     ''v1,AAAA v7,k/msg1.1000.{}'' ''whsec_k''"
    using t [where cs = "[(Some ''v1'', ''AAAA''), (Some ''v7'', ?d)]" and timestamp = "''1000''"] p r
    by (simp add: candidate_def x)
  moreover have "verifyWebhookSignature sample_hmac sample_b64 1000000 ''{}'' ''msg1'' ''1000''
     ?d ''whsec_k''"
    using t [where cs = "[(None, ?d)]" and timestamp = "''1000''"] p r
    by (simp add: candidate_def x)
  moreover have "\<not> verifyWebhookSignature sample_hmac sample_b64 1000000 ''{}'' ''msg1'' ''1000''
     ''v1,AAAA'' ''whsec_k''"
    using t [where cs = "[(Some ''v1'', ''AAAA'')]" and timestamp = "''1000''"] p r
    by (simp add: candidate_def x sample_b64_def)
  moreover have "\<not> verifyWebhookSignature sample_hmac sample_b64 1000000 ''{}'' ''msg1'' ''2000''
     ''v1,k/msg1.2000.{}'' ''whsec_k''"
    using t [where cs = "[(Some ''v1'', ''k/msg1.2000.{}'')]" and timestamp = "''2000''"] p nr
    by (simp add: candidate_def x2)
  ultimately show ?thesis by blast
qed

section \<open>Lemmas on the handlers\<close>

lemmas webhook_defs =
  replicateWebhook_def handle_payload_def process_callback_def find_by_replicateJobId_def
  verification_runs_def signature_ok_def present_def hdr_def extractVideoUrl_def or_js_def
  update_doc_def mark_failed_def mark_completed_def outputPath_of_def ok200_def
  processing_error_def get_job_def

lemmas sample_defs =
  sample_env_def sample_parse_def body_succeeded_def body_failed_def body_no_url_def
  body_no_output_def body_progress_def signed_req_def forged_req_def bare_req_def forged_req_old_def
  sample_world_def sample_job_def start_req_def sample_verifyIdToken_def
  sample_env_with_def sample_user_def quota_world_def

lemma truthy_prop_not_null: "truthy (get_prop p k) \<Longrightarrow> p \<noteq> Null \<and> p \<noteq> Undefined"
  by (cases p) auto

lemma webhook_found:
  assumes "\<not> (verification_runs e r \<and>
      \<not> signature_ok e (rawBody r) (webhook_id r) (webhook_timestamp r) (webhook_signature r))"
    and "JSON_parse e (rawBody r) = Some p"
    and "truthy (get_prop p ''id'')"
    and "find_by_replicateJobId (get_prop p ''id'') w = Some (jobId, j)"
  shows "replicateWebhook e r w =
     process_callback e jobId j (get_prop p ''status'') (get_prop p ''output'') (get_prop p ''error'') w"
proof -
  have "p \<noteq> Null \<and> p \<noteq> Undefined" using assms(3) by (rule truthy_prop_not_null)
  with assms show ?thesis
    by (auto simp: replicateWebhook_def handle_payload_def Let_def)
qed

lemma process_success_cases:
  assumes "truthy out"
  shows
   "(\<not> truthy (extractVideoUrl out) \<longrightarrow>
       process_callback e jobId j (JStr ''succeeded'') out err w = (Resp 500 (JStr ''Processing error''), w)) \<and>
    (truthy (extractVideoUrl out) \<and> \<not> bucket e \<longrightarrow>
       process_callback e jobId j (JStr ''succeeded'') out err w =
         (Resp 200 (JStr ''OK''),
          w\<lparr>jobs := update_doc jobId (mark_failed (JStr STORAGE_UNAVAILABLE_MSG) (now e)) (jobs w)\<rparr>)) \<and>
    (truthy (extractVideoUrl out) \<and> bucket e \<and> (\<forall>buf. fetch e (extractVideoUrl out) \<noteq> FetchOk buf) \<longrightarrow>
       process_callback e jobId j (JStr ''succeeded'') out err w =
         (Resp 500 (JStr ''Processing error''), w\<lparr>trace := trace w @ [Download (extractVideoUrl out)]\<rparr>)) \<and>
    (truthy (extractVideoUrl out) \<and> bucket e \<and> fetch e (extractVideoUrl out) = FetchOk buf \<and>
     \<not> save e (outputPath_of (userId j) jobId) \<longrightarrow>
       process_callback e jobId j (JStr ''succeeded'') out err w =
         (Resp 200 (JStr ''OK''),
          w\<lparr>trace := trace w @ [Download (extractVideoUrl out), StorageWrite (outputPath_of (userId j) jobId)],
            jobs := update_doc jobId (mark_failed (JStr STORAGE_UNAVAILABLE_MSG) (now e)) (jobs w)\<rparr>)) \<and>
    (truthy (extractVideoUrl out) \<and> bucket e \<and> fetch e (extractVideoUrl out) = FetchOk buf \<and>
     save e (outputPath_of (userId j) jobId) \<longrightarrow>
       process_callback e jobId j (JStr ''succeeded'') out err w =
         (Resp 200 (JStr ''OK''),
          w\<lparr>trace := trace w @ [Download (extractVideoUrl out), StorageWrite (outputPath_of (userId j) jobId)],
            files := (files w)(outputPath_of (userId j) jobId \<mapsto> buf),
            jobs := update_doc jobId (mark_completed (outputPath_of (userId j) jobId) (now e)) (jobs w)\<rparr>))"
  using assms
  by (auto simp: process_callback_def Let_def ok200_def processing_error_def split: fetch_result.splits)

lemma process_other_cases:
  assumes "\<not> (st = JStr ''succeeded'' \<and> truthy out)"
  shows "process_callback e i j st out err w =
     (if st = JStr ''failed'' then
        (Resp 200 (JStr ''OK''),
         w\<lparr>jobs := update_doc i (mark_failed (or_js err (JStr ''Replicate job failed'')) (now e)) (jobs w)\<rparr>)
      else if st = JStr ''canceled'' then
        (Resp 200 (JStr ''OK''),
         w\<lparr>jobs := update_doc i (mark_failed (JStr ''Job was canceled'') (now e)) (jobs w)\<rparr>)
      else (Resp 200 (JStr ''OK''), w))"
  using assms by (cases "st = JStr ''succeeded''") (simp_all add: process_callback_def ok200_def)

lemma webhook_success_cases:
  assumes "verification_runs e r"
    and "signature_ok e (rawBody r) (webhook_id r) (webhook_timestamp r) (webhook_signature r)"
    and "JSON_parse e (rawBody r) = Some p"
    and "truthy (get_prop p ''id'')"
    and "find_by_replicateJobId (get_prop p ''id'') w = Some (jobId, j)"
    and "get_prop p ''status'' = JStr ''succeeded''"
    and "truthy (get_prop p ''output'')"
    and "url = extractVideoUrl (get_prop p ''output'')"
    and "path = outputPath_of (userId j) jobId"
  shows
   "(\<not> truthy url \<longrightarrow>
       replicateWebhook e r w = (Resp 500 (JStr ''Processing error''), w)) \<and>
    (truthy url \<and> \<not> bucket e \<longrightarrow>
       replicateWebhook e r w =
         (Resp 200 (JStr ''OK''),
          w\<lparr>jobs := update_doc jobId (mark_failed (JStr STORAGE_UNAVAILABLE_MSG) (now e)) (jobs w)\<rparr>)) \<and>
    (truthy url \<and> bucket e \<and> (\<forall>buf. fetch e url \<noteq> FetchOk buf) \<longrightarrow>
       replicateWebhook e r w =
         (Resp 500 (JStr ''Processing error''), w\<lparr>trace := trace w @ [Download url]\<rparr>)) \<and>
    (truthy url \<and> bucket e \<and> fetch e url = FetchOk buf \<and> \<not> save e path \<longrightarrow>
       replicateWebhook e r w =
         (Resp 200 (JStr ''OK''),
          w\<lparr>trace := trace w @ [Download url, StorageWrite path],
            jobs := update_doc jobId (mark_failed (JStr STORAGE_UNAVAILABLE_MSG) (now e)) (jobs w)\<rparr>)) \<and>
    (truthy url \<and> bucket e \<and> fetch e url = FetchOk buf \<and> save e path \<longrightarrow>
       replicateWebhook e r w =
         (Resp 200 (JStr ''OK''),
          w\<lparr>trace := trace w @ [Download url, StorageWrite path],
            files := (files w)(path \<mapsto> buf),
            jobs := update_doc jobId (mark_completed path (now e)) (jobs w)\<rparr>))"
proof -
  have "replicateWebhook e r w =
     process_callback e jobId j (JStr ''succeeded'') (get_prop p ''output'') (get_prop p ''error'') w"
    using webhook_found [of e r p w jobId j] assms by simp
  then show ?thesis
    using process_success_cases [OF assms(7), of e jobId j "get_prop p ''error''" w buf] assms(8,9)
    by simp
qed

lemma update_doc_preserves:
  "(\<And>d. (i, d) \<in> set ds \<Longrightarrow> g (f d) = g d) \<Longrightarrow>
   map (\<lambda>(k, d). (k, g d)) (update_doc i f ds) = map (\<lambda>(k, d). (k, g d)) ds"
  by (induction ds) (auto simp: update_doc_def)

lemma find_in_set: "find P xs = Some x \<Longrightarrow> x \<in> set xs"
  by (auto simp: find_Some_iff)

lemma map_of_update_doc:
  "map_of (update_doc i f ds) k = (if k = i then map_option f (map_of ds k) else map_of ds k)"
  by (induction ds) (auto simp: update_doc_def)

lemma map_of_set_doc_fresh:
  "i \<notin> fst ` set ds \<Longrightarrow> map_of ds k = Some d \<Longrightarrow> map_of (set_doc i d' ds) k = Some d"
  by (auto simp: set_doc_def map_add_Some_iff)

lemma process_callback_jobs:
  "jobs (snd (process_callback e i j st out err w)) = jobs w \<or>
   (\<exists>m. jobs (snd (process_callback e i j st out err w)) = update_doc i (mark_failed m (now e)) (jobs w)) \<or>
   (\<exists>p. jobs (snd (process_callback e i j st out err w)) = update_doc i (mark_completed p (now e)) (jobs w))"
proof (cases "st = JStr ''succeeded'' \<and> truthy out")
  case False
  show ?thesis
    unfolding process_other_cases [OF False]
    by (cases "st = JStr ''failed''"; cases "st = JStr ''canceled''") auto
next
  case True
  then have st: "st = JStr ''succeeded''" and out: "truthy out" by simp_all
  let ?url = "extractVideoUrl out"
  note c = process_success_cases [OF out, of e i j err w]
  show ?thesis
  proof (cases "truthy ?url")
    case False
    then show ?thesis using c st by simp
  next
    case u: True
    show ?thesis
    proof (cases "bucket e")
      case False
      then have "jobs (snd (process_callback e i j st out err w)) =
          update_doc i (mark_failed (JStr STORAGE_UNAVAILABLE_MSG) (now e)) (jobs w)"
        using c u st by simp
      then show ?thesis by blast
    next
      case b: True
      show ?thesis
      proof (cases "fetch e ?url")
        case (FetchOk buf)
        show ?thesis
        proof (cases "save e (outputPath_of (userId j) i)")
          case True
          then have "jobs (snd (process_callback e i j st out err w)) =
              update_doc i (mark_completed (outputPath_of (userId j) i) (now e)) (jobs w)"
            using c [of buf] u b st FetchOk by simp
          then show ?thesis by blast
        next
          case False
          then have "jobs (snd (process_callback e i j st out err w)) =
              update_doc i (mark_failed (JStr STORAGE_UNAVAILABLE_MSG) (now e)) (jobs w)"
            using c [of buf] u b st FetchOk by simp
          then show ?thesis by blast
        qed
      qed (use c u b st in simp_all)
    qed
  qed
qed

lemma handle_payload_cases:
  "handle_payload e p w = (fst (handle_payload e p w), w) \<or>
   (\<exists>i j. find_by_replicateJobId (get_prop p ''id'') w = Some (i, j) \<and> truthy (get_prop p ''id'') \<and>
      handle_payload e p w =
        process_callback e i j (get_prop p ''status'') (get_prop p ''output'') (get_prop p ''error'') w)"
proof (cases "p = Null \<or> p = Undefined \<or> \<not> truthy (get_prop p ''id'')")
  case True
  then show ?thesis by (auto simp: handle_payload_def Let_def)
next
  case False
  show ?thesis
  proof (cases "find_by_replicateJobId (get_prop p ''id'') w")
    case None
    with False show ?thesis by (simp add: handle_payload_def Let_def)
  next
    case (Some x)
    obtain i j where x: "x = (i, j)" by (cases x)
    with Some False show ?thesis by (simp add: handle_payload_def Let_def)
  qed
qed

lemma handle_payload_jobs:
  "jobs (snd (handle_payload e p w)) = jobs w \<or>
   (\<exists>i m. jobs (snd (handle_payload e p w)) = update_doc i (mark_failed m (now e)) (jobs w)) \<or>
   (\<exists>i q. jobs (snd (handle_payload e p w)) = update_doc i (mark_completed q (now e)) (jobs w))"
  using handle_payload_cases [of e p w] process_callback_jobs
  by (metis snd_conv)

lemma replicateWebhook_cases:
  "replicateWebhook e r w = (fst (replicateWebhook e r w), w) \<or>
   (\<exists>p. JSON_parse e (rawBody r) = Some p \<and> replicateWebhook e r w = handle_payload e p w)"
  by (cases "JSON_parse e (rawBody r)") (simp_all add: replicateWebhook_def)

lemma replicateWebhook_jobs:
  "jobs (snd (replicateWebhook e r w)) = jobs w \<or>
   (\<exists>i m. jobs (snd (replicateWebhook e r w)) = update_doc i (mark_failed m (now e)) (jobs w)) \<or>
   (\<exists>i q. jobs (snd (replicateWebhook e r w)) = update_doc i (mark_completed q (now e)) (jobs w))"
  using replicateWebhook_cases [of e r w] handle_payload_jobs
  by (metis snd_conv)

lemma verifyStorageWritable_jobs: "jobs (snd (verifyStorageWritable e u i w)) = jobs w"
  by (simp add: verifyStorageWritable_def Let_def)

lemma start_prediction_jobs:
  "jobs (snd (start_prediction e q i j url w)) = jobs w \<or>
   (\<exists>pid. jobs (snd (start_prediction e q i j url w)) = update_doc i (mark_processing pid) (jobs w))"
  by (auto simp: start_prediction_def Let_def split: sum.splits)

lemma start_mock_jobs:
  "jobs (snd (start_mock e q u i w)) = jobs w \<or>
   (\<exists>p. jobs (snd (start_mock e q u i w)) = update_doc i (mark_mock_completed p i (now e)) (jobs w))"
  by (auto simp: start_mock_def Let_def split: fetch_result.splits)

lemma startJob_run_cases:
  "startJob_run e q u i j v w = (fst (startJob_run e q u i j v w), w) \<or>
   startJob_run e q u i j v w =
     (fst (startJob_run e q u i j v w), snd (verifyStorageWritable e u i w)) \<or>
   startJob_run e q u i j v w = start_mock e q u i (snd (verifyStorageWritable e u i w)) \<or>
   (\<exists>s. v = JStr s \<and>
      startJob_run e q u i j v w = start_prediction e q i j s (snd (verifyStorageWritable e u i w)))"
proof (cases v)
  case (JStr s)
  then show ?thesis
    by (cases "verifyStorageWritable e u i w") (simp add: startJob_run_def)
qed (simp_all add: startJob_run_def)

lemma startJob_run_jobs:
  "jobs (snd (startJob_run e q u i j v w)) = jobs w \<or>
   (\<exists>pid. jobs (snd (startJob_run e q u i j v w)) = update_doc i (mark_processing pid) (jobs w)) \<or>
   (\<exists>p. jobs (snd (startJob_run e q u i j v w)) = update_doc i (mark_mock_completed p i (now e)) (jobs w))"
  using startJob_run_cases [of e q u i j v w]
    start_mock_jobs [of e q u i "snd (verifyStorageWritable e u i w)"]
    start_prediction_jobs [of e q i j _ "snd (verifyStorageWritable e u i w)"]
    verifyStorageWritable_jobs [of e u i w]
  by (metis snd_conv)

lemma authenticated_cases:
  "authenticated e r w k = (fst (authenticated e r w k), w) \<or>
   (\<exists>h u m. http_method r = ''POST'' \<and> authorization r = Some h \<and> startsWith h ''Bearer '' \<and>
      verifyIdToken e (idToken_of h) = Inr (u, m) \<and> authenticated e r w k = k (u, m))"
proof (cases "authorization r")
  case None
  then show ?thesis by (simp add: authenticated_def)
next
  case (Some h)
  show ?thesis
  proof (cases "verifyIdToken e (idToken_of h)")
    case (Inl msg)
    with Some show ?thesis by (simp add: authenticated_def)
  next
    case (Inr t)
    obtain u m where "t = (u, m)" by (cases t)
    with Inr Some show ?thesis by (simp add: authenticated_def)
  qed
qed

lemma with_pending_job_cases:
  "with_pending_job e u v w k = (fst (with_pending_job e u v w k), w) \<or>
   (\<exists>s i j. v = JStr s \<and> valid_doc_path s \<and> doc_segments s = [i] \<and> get_job i w = Some j \<and>
      userId j = u \<and> status j = Pending \<and> with_pending_job e u v w k = k i j)"
proof (cases v)
  case (JStr s)
  show ?thesis
  proof (cases "doc_segments s")
    case Nil
    with JStr show ?thesis by (simp add: with_pending_job_def)
  next
    case (Cons i rest)
    show ?thesis
    proof (cases rest)
      case Nil
      with Cons JStr show ?thesis
        by (cases "get_job i w") (simp_all add: with_pending_job_def)
    next
      case (Cons x xs)
      with \<open>doc_segments s = i # rest\<close> JStr show ?thesis
        by (simp add: with_pending_job_def)
    qed
  qed
qed (simp_all add: with_pending_job_def)

lemma startJob_cases:
  "startJob e r w = (fst (startJob e r w), w) \<or>
   (\<exists>u i j. get_job i w = Some j \<and> status j = Pending \<and>
      startJob e r w = startJob_run e (body_jobId r) u i j (body_imageUrl r) w)"
proof -
  let ?k2 = "\<lambda>u i j. case checkRateLimit e u w of
           Inl msg \<Rightarrow> (internal_error msg, w)
         | Inr ok \<Rightarrow> startJob_run e (body_jobId r) u i j (body_imageUrl r) w"
  let ?k1 = "\<lambda>(u, m). with_pending_job e u (body_jobId r) w (?k2 u)"
  have s: "startJob e r w = authenticated e r w ?k1"
    by (simp add: startJob_def)
  from authenticated_cases [of e r w ?k1] show ?thesis
  proof
    assume "authenticated e r w ?k1 = (fst (authenticated e r w ?k1), w)"
    then show ?thesis using s by simp
  next
    assume "\<exists>h u m. http_method r = ''POST'' \<and> authorization r = Some h \<and>
      startsWith h ''Bearer '' \<and> verifyIdToken e (idToken_of h) = Inr (u, m) \<and>
      authenticated e r w ?k1 = ?k1 (u, m)"
    then obtain u m where a: "startJob e r w = with_pending_job e u (body_jobId r) w (?k2 u)"
      using s by auto
    from with_pending_job_cases [of e u "body_jobId r" w "?k2 u"] show ?thesis
    proof
      assume "with_pending_job e u (body_jobId r) w (?k2 u) =
        (fst (with_pending_job e u (body_jobId r) w (?k2 u)), w)"
      then show ?thesis using a by simp
    next
      assume "\<exists>s i j. body_jobId r = JStr s \<and> valid_doc_path s \<and> doc_segments s = [i] \<and>
        get_job i w = Some j \<and> userId j = u \<and> status j = Pending \<and>
        with_pending_job e u (body_jobId r) w (?k2 u) = ?k2 u i j"
      then obtain i j where g: "get_job i w = Some j" "status j = Pending"
        and b: "startJob e r w = ?k2 u i j" using a by auto
      show ?thesis
      proof (cases "checkRateLimit e u w")
        case (Inl msg)
        then show ?thesis using b by simp
      next
        case (Inr ok)
        then show ?thesis using b g by auto
      qed
    qed
  qed
qed

lemma startJob_jobs:
  "jobs (snd (startJob e r w)) = jobs w \<or>
   (\<exists>i j f. get_job i w = Some j \<and> status j = Pending \<and>
      jobs (snd (startJob e r w)) = update_doc i f (jobs w) \<and>
      (\<forall>d. status (f d) = Processing \<or> status (f d) = Completed))"
proof -
  from startJob_cases [of e r w] show ?thesis
  proof
    assume "startJob e r w = (fst (startJob e r w), w)"
    then show ?thesis by (metis snd_conv)
  next
    assume "\<exists>u i j. get_job i w = Some j \<and> status j = Pending \<and>
           startJob e r w = startJob_run e (body_jobId r) u i j (body_imageUrl r) w"
    then obtain u i j where g: "get_job i w = Some j" "status j = Pending"
      and s: "startJob e r w = startJob_run e (body_jobId r) u i j (body_imageUrl r) w" by blast
    from startJob_run_jobs [of e "body_jobId r" u i j "body_imageUrl r" w]
    consider "jobs (snd (startJob e r w)) = jobs w"
      | pid where "jobs (snd (startJob e r w)) = update_doc i (mark_processing pid) (jobs w)"
      | p where "jobs (snd (startJob e r w)) = update_doc i (mark_mock_completed p i (now e)) (jobs w)"
      using s by auto
    then show ?thesis
    proof cases
      case 1
      then show ?thesis by simp
    next
      case 2
      have "\<forall>d. status (mark_processing pid d) = Processing \<or> status (mark_processing pid d) = Completed"
        by (simp add: mark_processing_def)
      with g 2 show ?thesis by blast
    next
      case 3
      have "\<forall>d. status (mark_mock_completed p i (now e) d) = Processing \<or>
                status (mark_mock_completed p i (now e) d) = Completed"
        by (simp add: mark_mock_completed_def)
      with g 3 show ?thesis by blast
    qed
  qed
qed

lemma createJob_jobs:
  "jobs (snd (createJob e r w)) = jobs w \<or>
   (\<exists>d. jobs (snd (createJob e r w)) = set_doc (newJobId e) d (jobs w))"
proof -
  let ?k = "\<lambda>(uid, mail).
       case body_danceStyle r of
         JStr style \<Rightarrow>
           if style = [] then (json_error 400 ''danceStyle is required'', w)
           else if style \<notin> set validStyles then
             (json_error 400
                ''Invalid danceStyle. Allowed: hip-hop, ballet, disco, breakdance, salsa, robot'', w)
           else
             (let w1 = getOrCreateUser e uid mail w;
                  jobId = newJobId e;
                  uploadPath = ''uploads/'' @ uid @ ''/'' @ jobId @ ''/original.jpg''
              in (Resp 200 (JObj [(''jobId'', JStr jobId), (''uploadPath'', JStr uploadPath)]),
                  w1\<lparr>jobs := set_doc jobId (new_job e uid uploadPath style) (jobs w1)\<rparr>))
       | _ \<Rightarrow> (json_error 400 ''danceStyle is required'', w)"
  have c: "createJob e r w = authenticated e r w ?k"
    by (simp add: createJob_def)
  have k: "jobs (snd (?k (u, m))) = jobs w \<or>
        (\<exists>d. jobs (snd (?k (u, m))) = set_doc (newJobId e) d (jobs w))" for u m
    by (cases "body_danceStyle r") (auto simp: getOrCreateUser_def Let_def)
  from authenticated_cases [of e r w ?k] show ?thesis
  proof
    assume "authenticated e r w ?k = (fst (authenticated e r w ?k), w)"
    then show ?thesis using c by (metis snd_conv)
  next
    assume "\<exists>h u m. http_method r = ''POST'' \<and> authorization r = Some h \<and>
      startsWith h ''Bearer '' \<and> verifyIdToken e (idToken_of h) = Inr (u, m) \<and>
      authenticated e r w ?k = ?k (u, m)"
    then obtain u m where "createJob e r w = ?k (u, m)" using c by auto
    then show ?thesis using k [of u m] by simp
  qed
qed

lemma startJob_status:
  assumes "get_job k w = Some j"
  shows "\<exists>j'. get_job k (snd (startJob e r w)) = Some j' \<and>
     (status j' = status j \<or> status j = Pending \<and> (status j' = Processing \<or> status j' = Completed))"
  using startJob_jobs [of e r w] assms
  by (auto simp: get_job_def map_of_update_doc)

lemma replicateWebhook_status:
  assumes "get_job k w = Some j"
  shows "\<exists>j'. get_job k (snd (replicateWebhook e r w)) = Some j' \<and>
     (status j' = status j \<or> status j' = Completed \<or> status j' = Failed)"
  using replicateWebhook_jobs [of e r w] assms
  by (auto simp: get_job_def map_of_update_doc mark_failed_def mark_completed_def)

lemma createJob_status:
  assumes "get_job k w = Some j" and "newJobId e \<notin> fst ` set (jobs w)"
  shows "get_job k (snd (createJob e r w)) = Some j"
  using createJob_jobs [of e r w] assms
  by (auto simp: get_job_def map_of_set_doc_fresh)

lemma rank_cases:
  "status j' = status j \<or> status j = Pending \<or> status j' = Completed \<or> status j' = Failed \<Longrightarrow>
   rank (status j) \<le> rank (status j')"
  by (cases "status j"; cases "status j'") auto

lemma run_rank:
  "fresh_ids ops w \<Longrightarrow> get_job k w = Some j \<Longrightarrow>
   \<exists>j'. get_job k (run ops w) = Some j' \<and> rank (status j) \<le> rank (status j')"
proof (induction ops arbitrary: w j)
  case Nil
  then show ?case by simp
next
  case (Cons op ops)
  have "\<exists>j1. get_job k (snd (step op w)) = Some j1 \<and> rank (status j) \<le> rank (status j1)"
  proof (cases op)
    case (CreateJob e r)
    with Cons.prems show ?thesis using createJob_status [of k w j e r] by simp
  next
    case (StartJob e r)
    with Cons.prems show ?thesis using startJob_status [of k w j e r] rank_cases by fastforce
  next
    case (Callback e r)
    with Cons.prems show ?thesis using replicateWebhook_status [of k w j e r] rank_cases by fastforce
  qed
  then obtain j1 where j1: "get_job k (snd (step op w)) = Some j1"
    and le: "rank (status j) \<le> rank (status j1)" by blast
  have "fresh_ids ops (snd (step op w))"
    using Cons.prems(1) by (cases op) simp_all
  from Cons.IH [OF this j1] le show ?case by fastforce
qed

lemma valid_doc_path_nonempty: "valid_doc_path s \<Longrightarrow> s \<noteq> []"
  by (auto simp: valid_doc_path_def)

lemma FREE_TIER_MSG_nonempty: "FREE_TIER_MSG \<noteq> []"
  by (simp add: FREE_TIER_MSG_def)

lemma startJob_authenticated:
  assumes "http_method r = ''POST''" and "authorization r = Some h"
    and "startsWith h ''Bearer ''" and "verifyIdToken e (idToken_of h) = Inr (uid, mail)"
  shows "startJob e r w =
     with_pending_job e uid (body_jobId r) w (\<lambda>jid j.
       case checkRateLimit e uid w of
         Inl msg \<Rightarrow> (internal_error msg, w)
       | Inr ok \<Rightarrow> startJob_run e (body_jobId r) uid jid j (body_imageUrl r) w)"
  using assms by (simp add: startJob_def authenticated_def)


lemma with_pending_job_found:
  assumes "valid_doc_path s" and "doc_segments s = [jid]" and "get_job jid w = Some j"
    and "userId j = uid" and "status j = Pending"
  shows "with_pending_job e uid (JStr s) w k = k jid j"
  using assms valid_doc_path_nonempty [of s] by (simp add: with_pending_job_def)

lemma jobsSnapshot_terminal_only:
  "jobsSnapshot t uid (w\<lparr>jobs := filter (\<lambda>(i, d). status d \<noteq> Pending \<and> status d \<noteq> Failed) (jobs w)\<rparr>) =
   jobsSnapshot t uid w"
proof -
  have "filter (\<lambda>(i, j). counts_for_quota t uid j)
          (filter (\<lambda>(i, d). status d \<noteq> Pending \<and> status d \<noteq> Failed) ds) =
        filter (\<lambda>(i, j). counts_for_quota t uid j) ds" for ds
    by (induction ds) (auto simp: counts_for_quota_def)
  then show ?thesis by (simp add: jobsSnapshot_def)
qed



lemma webhook_no_output_case:
  assumes "\<not> (verification_runs e r \<and>
      \<not> signature_ok e (rawBody r) (webhook_id r) (webhook_timestamp r) (webhook_signature r))"
    and "JSON_parse e (rawBody r) = Some p"
    and "truthy (get_prop p ''id'')"
    and "find_by_replicateJobId (get_prop p ''id'') w = Some (jobId, j)"
    and "get_prop p ''status'' = JStr ''succeeded''"
    and "\<not> truthy (get_prop p ''output'')"
  shows "replicateWebhook e r w = (Resp 200 (JStr ''OK''), w)"
proof -
  have "replicateWebhook e r w =
     process_callback e jobId j (JStr ''succeeded'') (get_prop p ''output'') (get_prop p ''error'') w"
    using webhook_found [OF assms(1-4)] assms(5) by simp
  then show ?thesis
    using process_other_cases [of "JStr ''succeeded''" "get_prop p ''output''" e jobId j
        "get_prop p ''error''" w] assms(6)
    by simp
qed


section \<open>Facts about the concrete environment\<close>

lemma split_on_no_sep: "d \<notin> set s \<Longrightarrow> split_on d s = [s]"
  using split_on_prefix_no_sep [of d s "[]"] by simp

lemma sample_hmac_clean:
  "CHR '','' \<notin> set (sample_hmac key c)" "CHR '' '' \<notin> set (sample_hmac key c)"
  if "CHR '','' \<notin> set key" "CHR '' '' \<notin> set key"
  using that by (auto simp: sample_hmac_def)

lemma signed_req_verified:
  assumes "hmac e = sample_hmac" and "now e = 1000000" and "webhookSecret e = ''whsec_k''"
    and "\<not> skipWebhookVerify e"
  shows "verification_runs e (signed_req b)"
    and "signature_ok e (rawBody (signed_req b)) (webhook_id (signed_req b))
           (webhook_timestamp (signed_req b)) (webhook_signature (signed_req b))"
proof -
  let ?x = "sample_hmac ''k'' (''msg1.1000.'' @ b)"
  show "verification_runs e (signed_req b)"
    using assms by (simp add: verification_runs_def present_def signed_req_def)
  have c: "CHR '','' \<notin> set ?x" "CHR '' '' \<notin> set ?x"
    by (rule sample_hmac_clean; simp)+
  have "signatures (''v1'' @ CHR '','' # ?x) = signatures ?x"
    by (rule signatures_tag) simp
  then have s: "signatures (''v1,'' @ ?x) = [?x]"
    using c by (simp add: signatures_def split_on_no_sep)
  have r: "isRecent 1000000 ''1000''"
    by (simp add: isRecent_def parse_defs)
  show "signature_ok e (rawBody (signed_req b)) (webhook_id (signed_req b))
           (webhook_timestamp (signed_req b)) (webhook_signature (signed_req b))"
    using assms s r
    by (simp add: signature_ok_def signed_req_def hdr_def verifyWebhookSignature_def
        expectedSignature_def signedContent_def sig_matches_iff)
qed

lemma sample_env_fields:
  "hmac (sample_env_with bk f s) = sample_hmac" "now (sample_env_with bk f s) = 1000000"
  "webhookSecret (sample_env_with bk f s) = ''whsec_k''" "\<not> skipWebhookVerify (sample_env_with bk f s)"
  "hmac sample_env = sample_hmac" "now sample_env = 1000000"
  "webhookSecret sample_env = ''whsec_k''" "\<not> skipWebhookVerify sample_env"
  by (simp_all add: sample_env_with_def sample_env_def)

lemma sample_parse_bodies:
  "sample_parse body_succeeded =
     Some (JObj [(''id'', JStr ''pred-1''), (''status'', JStr ''succeeded''),
                 (''output'', JStr ''https://cdn/vid.mp4'')])"
  "sample_parse body_failed =
     Some (JObj [(''id'', JStr ''pred-1''), (''status'', JStr ''failed''), (''error'', JStr ''boom'')])"
  "sample_parse body_no_url =
     Some (JObj [(''id'', JStr ''pred-1''), (''status'', JStr ''succeeded''),
                 (''output'', JObj [(''frames'', JNum 24)])])"
  "sample_parse body_no_output =
     Some (JObj [(''id'', JStr ''pred-1''), (''status'', JStr ''succeeded'')])"
  "sample_parse body_progress =
     Some (JObj [(''id'', JStr ''pred-1''), (''status'', JStr ''processing'')])"
  by (simp_all add: sample_parse_def body_succeeded_def body_failed_def body_no_url_def
      body_no_output_def body_progress_def)

lemma sample_find:
  "find_by_replicateJobId (JStr ''pred-1'') (sample_world st (JStr ''pred-1'') out) =
     Some (''j1'', sample_job st (JStr ''pred-1'') out)"
  by (simp add: find_by_replicateJobId_def sample_world_def sample_job_def)

lemma start_req_auth:
  "http_method (start_req i) = ''POST''"
  "authorization (start_req i) = Some ''Bearer tok-u1''"
  "startsWith ''Bearer tok-u1'' ''Bearer ''"
  "verifyIdToken sample_env (idToken_of ''Bearer tok-u1'') = Inr (''u1'', ''u1@example.com'')"
  "body_jobId (start_req i) = JStr i"
  by (simp_all add: start_req_def startsWith_def idToken_of_def sample_env_def
      sample_verifyIdToken_def)

lemma sample_doc_paths:
  "valid_doc_path ''j1''" "valid_doc_path ''j2''" "valid_doc_path ''j3''"
  "valid_doc_path ''j4''" "valid_doc_path ''j9''" "valid_doc_path ''/j1''"
  by (simp_all add: valid_doc_path_def doc_segments_def)

lemma sample_doc_segments:
  "doc_segments ''j1'' = [''j1'']" "doc_segments ''j2'' = [''j2'']" "doc_segments ''j3'' = [''j3'']"
  "doc_segments ''j4'' = [''j4'']" "doc_segments ''j9'' = [''j9'']" "doc_segments ''/j1'' = [''j1'']"
  by (simp_all add: doc_segments_def)

section \<open>The completion callback\<close>

text \<open>
  C1, as the claim states it: no callback changes a job unless the signature verification
  has succeeded first. The verification only runs when the secret is configured, the three
  headers are present and the skip switch is off. With the secret configured, a request
  that carries no signature header at all is processed, and it moves the job \<^verbatim>\<open>j1\<close> from
  processing to failed.
\<close>

theorem unverified_callback_counterexample:
  "webhookSecret sample_env = ''whsec_k'' \<and>
   \<not> signature_ok sample_env body_failed None None None \<and>
   map_option status (get_job ''j1'' (sample_world Processing (JStr ''pred-1'') None)) = Some Processing \<and>
   map_option status (get_job ''j1'' (snd (replicateWebhook sample_env (bare_req body_failed)
      (sample_world Processing (JStr ''pred-1'') None)))) = Some Failed"
  by (simp add: webhook_defs sample_defs verifier_defs)

text \<open>
  C1, amended: whenever the verification runs (secret configured, the three headers
  present and, in the current version, the skip switch off) and fails, both versions of
  \<^verbatim>\<open>replicateWebhook\<close> answer 401 \<^verbatim>\<open>Invalid signature\<close> and return the world as it was:
  no job is changed, nothing is fetched, nothing is written. When the verification does
  not run, the callback is parsed and processed unverified.
\<close>

theorem invalid_signature_rejected:
  "(verification_runs e r \<and>
    \<not> signature_ok e (rawBody r) (webhook_id r) (webhook_timestamp r) (webhook_signature r) \<longrightarrow>
      replicateWebhook e r w = (Resp 401 (JStr ''Invalid signature''), w)) \<and>
   (old_method r' = ''POST'' \<and> verification_runs_old e r' \<and>
    \<not> signature_ok e (rawBody_old e r') (old_webhook_id r') (old_webhook_timestamp r')
        (old_webhook_signature r') \<longrightarrow>
      replicateWebhook_old e r' w = (Resp 401 (JStr ''Invalid signature''), w)) \<and>
   (\<not> verification_runs e r \<longrightarrow>
      replicateWebhook e r w =
        (case JSON_parse e (rawBody r) of
           None \<Rightarrow> (Resp 400 (JStr ''Invalid JSON''), w)
         | Some payload \<Rightarrow> handle_payload e payload w))"
  by (simp add: replicateWebhook_def replicateWebhook_old_def)

theorem invalid_signature_rejected_witness:
  "replicateWebhook sample_env (forged_req body_failed) (sample_world Processing (JStr ''pred-1'') None)
     = (Resp 401 (JStr ''Invalid signature''), sample_world Processing (JStr ''pred-1'') None) \<and>
   replicateWebhook_old sample_env (forged_req_old body_failed)
       (sample_world Processing (JStr ''pred-1'') None)
     = (Resp 401 (JStr ''Invalid signature''), sample_world Processing (JStr ''pred-1'') None) \<and>
   fst (replicateWebhook sample_env (bare_req body_failed)
       (sample_world Processing (JStr ''pred-1'') None)) = Resp 200 (JStr ''OK'')"
proof -
  let ?w = "sample_world Processing (JStr ''pred-1'') None"
  have a: "verification_runs sample_env (forged_req body_failed)"
    by (simp add: verification_runs_def present_def sample_defs)
  have b: "\<not> signature_ok sample_env (rawBody (forged_req body_failed))
     (webhook_id (forged_req body_failed)) (webhook_timestamp (forged_req body_failed))
     (webhook_signature (forged_req body_failed))"
    by (simp add: signature_ok_def hdr_def sample_defs verifier_defs)
  have a': "old_method (forged_req_old body_failed) = ''POST''"
    and a'': "verification_runs_old sample_env (forged_req_old body_failed)"
    by (simp_all add: verification_runs_old_def present_def sample_defs)
  have b': "\<not> signature_ok sample_env (rawBody_old sample_env (forged_req_old body_failed))
     (old_webhook_id (forged_req_old body_failed)) (old_webhook_timestamp (forged_req_old body_failed))
     (old_webhook_signature (forged_req_old body_failed))"
    by (simp add: signature_ok_def rawBody_old_def hdr_def sample_defs verifier_defs)
  have c: "\<not> verification_runs sample_env (bare_req body_failed)"
    by (simp add: verification_runs_def present_def sample_defs)
  have d: "fst (case JSON_parse sample_env (rawBody (bare_req body_failed)) of
           None \<Rightarrow> (Resp 400 (JStr ''Invalid JSON''), ?w)
         | Some payload \<Rightarrow> handle_payload sample_env payload ?w) = Resp 200 (JStr ''OK'')"
    by (simp add: webhook_defs sample_defs)
  note t = invalid_signature_rejected [of sample_env _ ?w]
  from t [of "forged_req body_failed" "forged_req_old body_failed"] a b a' a'' b'
    t [of "bare_req body_failed" "forged_req_old body_failed"] c d
  show ?thesis by simp
qed

text \<open>
  C10: a verified callback whose payload names an existing job, and whose status is none
  of \<^verbatim>\<open>succeeded\<close> with a truthy output, \<^verbatim>\<open>failed\<close> and \<^verbatim>\<open>canceled\<close>, is answered 200 and
  the world is returned as it was, so every field of the job is unchanged.
\<close>

theorem progress_callback_no_change:
  assumes "verification_runs e r"
    and "signature_ok e (rawBody r) (webhook_id r) (webhook_timestamp r) (webhook_signature r)"
    and "JSON_parse e (rawBody r) = Some p"
    and "truthy (get_prop p ''id'')"
    and "find_by_replicateJobId (get_prop p ''id'') w = Some (jobId, j)"
    and "\<not> (get_prop p ''status'' = JStr ''succeeded'' \<and> truthy (get_prop p ''output''))"
    and "get_prop p ''status'' \<noteq> JStr ''failed''"
    and "get_prop p ''status'' \<noteq> JStr ''canceled''"
  shows "replicateWebhook e r w = (Resp 200 (JStr ''OK''), w)"
proof -
  have "p \<noteq> Null \<and> p \<noteq> Undefined" using assms(4) by (rule truthy_prop_not_null)
  with assms show ?thesis
    by (auto simp: replicateWebhook_def handle_payload_def process_callback_def ok200_def Let_def)
qed

theorem progress_callback_no_change_witness:
  "replicateWebhook sample_env (signed_req body_progress)
     (sample_world Processing (JStr ''pred-1'') None) =
   (Resp 200 (JStr ''OK''), sample_world Processing (JStr ''pred-1'') None)"
proof -
  have p: "JSON_parse sample_env (rawBody (signed_req body_progress)) =
      Some (JObj [(''id'', JStr ''pred-1''), (''status'', JStr ''processing'')])"
    by (simp add: sample_env_def signed_req_def sample_parse_bodies)
  show ?thesis
    by (rule progress_callback_no_change
        [OF signed_req_verified [OF sample_env_fields(5-8)] p _ _ _ _ _,
          where jobId = "''j1''" and j = "sample_job Processing (JStr ''pred-1'') None"])
      (simp_all add: sample_find)
qed

text \<open>
  C4, as the claim states it: every authentic callback would be answered 200, and a failure
  while processing it would leave the job failed. A correctly signed success callback
  whose output holds no locator is answered 500, and the job stays processing.
\<close>

theorem failure_not_recorded_counterexample:
  "verification_runs sample_env (signed_req body_no_url) \<and>
   signature_ok sample_env body_no_url (Some ''msg1'') (Some ''1000'')
     (webhook_signature (signed_req body_no_url)) \<and>
   fst (replicateWebhook sample_env (signed_req body_no_url)
          (sample_world Processing (JStr ''pred-1'') None)) = Resp 500 (JStr ''Processing error'') \<and>
   map_option status (get_job ''j1'' (snd (replicateWebhook sample_env (signed_req body_no_url)
          (sample_world Processing (JStr ''pred-1'') None)))) = Some Processing"
  by (simp add: webhook_defs sample_defs verifier_defs)

text \<open>
  C4, amended: for a verified callback with status \<^verbatim>\<open>succeeded\<close> that names an existing job,
  \<^item> if the output is missing, null or empty (not truthy), the answer is 200 and nothing
    changes;
  \<^item> if the output is truthy and holds no usable locator, the answer is 500
    \<^verbatim>\<open>Processing error\<close> and nothing changes;
  \<^item> if there is a locator and no bucket, the answer is 200 and the job is failed with the
    storage message;
  \<^item> if the download throws or is not ok, the answer is 500 and no job changes;
  \<^item> if the write to the bucket fails, the answer is 200 and the job is failed with the
    storage message;
  \<^item> otherwise the answer is 200, the object is stored and the job is completed.
\<close>

theorem callback_failure_handling:
  assumes "verification_runs e r"
    and "signature_ok e (rawBody r) (webhook_id r) (webhook_timestamp r) (webhook_signature r)"
    and "JSON_parse e (rawBody r) = Some p"
    and "truthy (get_prop p ''id'')"
    and "find_by_replicateJobId (get_prop p ''id'') w = Some (jobId, j)"
    and "get_prop p ''status'' = JStr ''succeeded''"
    and "out = get_prop p ''output''"
    and "url = extractVideoUrl out"
    and "path = outputPath_of (userId j) jobId"
  shows
   "(\<not> truthy out \<longrightarrow>
       replicateWebhook e r w = (Resp 200 (JStr ''OK''), w)) \<and>
    (truthy out \<and> \<not> truthy url \<longrightarrow>
       replicateWebhook e r w = (Resp 500 (JStr ''Processing error''), w)) \<and>
    (truthy out \<and> truthy url \<and> \<not> bucket e \<longrightarrow>
       replicateWebhook e r w =
         (Resp 200 (JStr ''OK''),
          w\<lparr>jobs := update_doc jobId (mark_failed (JStr STORAGE_UNAVAILABLE_MSG) (now e)) (jobs w)\<rparr>)) \<and>
    (truthy out \<and> truthy url \<and> bucket e \<and> (\<forall>buf. fetch e url \<noteq> FetchOk buf) \<longrightarrow>
       replicateWebhook e r w =
         (Resp 500 (JStr ''Processing error''), w\<lparr>trace := trace w @ [Download url]\<rparr>)) \<and>
    (truthy out \<and> truthy url \<and> bucket e \<and> fetch e url = FetchOk buf \<and> \<not> save e path \<longrightarrow>
       replicateWebhook e r w =
         (Resp 200 (JStr ''OK''),
          w\<lparr>trace := trace w @ [Download url, StorageWrite path],
            jobs := update_doc jobId (mark_failed (JStr STORAGE_UNAVAILABLE_MSG) (now e)) (jobs w)\<rparr>)) \<and>
    (truthy out \<and> truthy url \<and> bucket e \<and> fetch e url = FetchOk buf \<and> save e path \<longrightarrow>
       replicateWebhook e r w =
         (Resp 200 (JStr ''OK''),
          w\<lparr>trace := trace w @ [Download url, StorageWrite path],
            files := (files w)(path \<mapsto> buf),
            jobs := update_doc jobId (mark_completed path (now e)) (jobs w)\<rparr>))"
proof (cases "truthy out")
  case False
  then show ?thesis
    using webhook_no_output_case [of e r p w jobId j] assms by simp
next
  case True
  then have t: "truthy (get_prop p ''output'')" using assms(7) by simp
  from webhook_success_cases [OF assms(1-6) t refl refl, of buf] assms(7-9) True
  show ?thesis by simp
qed

theorem callback_failure_handling_witness:
  "replicateWebhook (sample_env_with True (FetchOk []) True) (signed_req body_no_output)
       (sample_world Processing (JStr ''pred-1'') None) =
     (Resp 200 (JStr ''OK''), sample_world Processing (JStr ''pred-1'') None) \<and>
   replicateWebhook (sample_env_with True (FetchOk []) True) (signed_req body_no_url)
       (sample_world Processing (JStr ''pred-1'') None) =
     (Resp 500 (JStr ''Processing error''), sample_world Processing (JStr ''pred-1'') None) \<and>
   map_option status (get_job ''j1'' (snd (replicateWebhook (sample_env_with False (FetchOk []) True)
       (signed_req body_succeeded) (sample_world Processing (JStr ''pred-1'') None)))) = Some Failed \<and>
   map_option status (get_job ''j1'' (snd (replicateWebhook (sample_env_with True (FetchNotOk ''404'') True)
       (signed_req body_succeeded) (sample_world Processing (JStr ''pred-1'') None)))) = Some Processing \<and>
   fst (replicateWebhook (sample_env_with True (FetchNotOk ''404'') True)
       (signed_req body_succeeded) (sample_world Processing (JStr ''pred-1'') None)) =
     Resp 500 (JStr ''Processing error'') \<and>
   map_option status (get_job ''j1'' (snd (replicateWebhook (sample_env_with True (FetchOk []) False)
       (signed_req body_succeeded) (sample_world Processing (JStr ''pred-1'') None)))) = Some Failed \<and>
   map_option status (get_job ''j1'' (snd (replicateWebhook (sample_env_with True (FetchOk []) True)
       (signed_req body_succeeded) (sample_world Processing (JStr ''pred-1'') None)))) = Some Completed"
proof -
  let ?w = "sample_world Processing (JStr ''pred-1'') None"
  let ?j = "sample_job Processing (JStr ''pred-1'') None"
  let ?u = "JStr ''https://cdn/vid.mp4''"
  have ps: "JSON_parse (sample_env_with bk f s) (rawBody (signed_req body_succeeded)) =
      Some (JObj [(''id'', JStr ''pred-1''), (''status'', JStr ''succeeded''), (''output'', ?u)])"
    and pn: "JSON_parse (sample_env_with bk f s) (rawBody (signed_req body_no_url)) =
      Some (JObj [(''id'', JStr ''pred-1''), (''status'', JStr ''succeeded''),
                  (''output'', JObj [(''frames'', JNum 24)])])"
    and po: "JSON_parse (sample_env_with bk f s) (rawBody (signed_req body_no_output)) =
      Some (JObj [(''id'', JStr ''pred-1''), (''status'', JStr ''succeeded'')])" for bk f s
    by (simp_all add: sample_env_with_def sample_env_def signed_req_def sample_parse_bodies)
  have e: "bucket (sample_env_with bk f s) = bk" "fetch (sample_env_with bk f s) v = f"
    "save (sample_env_with bk f s) q = s" for bk f s v q
    by (simp_all add: sample_env_with_def)
  have g: "get_job ''j1'' (?w\<lparr>trace := t, jobs := update_doc ''j1'' h (jobs ?w)\<rparr>) = Some (h ?j)"
    "get_job ''j1'' (?w\<lparr>jobs := update_doc ''j1'' h (jobs ?w)\<rparr>) = Some (h ?j)"
    "get_job ''j1'' (?w\<lparr>trace := t, files := fs, jobs := update_doc ''j1'' h (jobs ?w)\<rparr>) = Some (h ?j)"
    "get_job ''j1'' (?w\<lparr>trace := t\<rparr>) = Some ?j" for t h fs
    by (simp_all add: get_job_def sample_world_def update_doc_def)
  have st: "status (mark_failed m t ?j) = Failed" "status (mark_completed q t ?j) = Completed"
    "status ?j = Processing" for m t q
    by (simp_all add: mark_failed_def mark_completed_def sample_job_def)
  let ?ps = "JObj [(''id'', JStr ''pred-1''), (''status'', JStr ''succeeded''), (''output'', ?u)]"
  let ?pn = "JObj [(''id'', JStr ''pred-1''), (''status'', JStr ''succeeded''),
                  (''output'', JObj [(''frames'', JNum 24)])]"
  let ?po = "JObj [(''id'', JStr ''pred-1''), (''status'', JStr ''succeeded'')]"
  have fs: "find_by_replicateJobId (get_prop ?ps ''id'') ?w = Some (''j1'', ?j)"
    and fn: "find_by_replicateJobId (get_prop ?pn ''id'') ?w = Some (''j1'', ?j)"
    and fo: "find_by_replicateJobId (get_prop ?po ''id'') ?w = Some (''j1'', ?j)"
    by (simp_all add: sample_find)
  have ok_s: "truthy (get_prop ?ps ''id'')" "get_prop ?ps ''status'' = JStr ''succeeded''"
    and ok_n: "truthy (get_prop ?pn ''id'')" "get_prop ?pn ''status'' = JStr ''succeeded''"
    and ok_o: "truthy (get_prop ?po ''id'')" "get_prop ?po ''status'' = JStr ''succeeded''"
    by simp_all
  have x: "extractVideoUrl (get_prop ?ps ''output'') = ?u"
    "\<not> truthy (extractVideoUrl (get_prop ?pn ''output''))"
    "truthy (get_prop ?ps ''output'')" "truthy (get_prop ?pn ''output'')"
    "\<not> truthy (get_prop ?po ''output'')"
    by (simp_all add: extractVideoUrl_def or_js_def)
  note v = signed_req_verified [OF sample_env_fields(1-4)]
  note n = callback_failure_handling [OF v pn ok_n(1) fn ok_n(2) refl refl refl]
  note s = callback_failure_handling [OF v ps ok_s(1) fs ok_s(2) refl refl refl]
  note o = callback_failure_handling [OF v po ok_o(1) fo ok_o(2) refl refl refl]
  have "replicateWebhook (sample_env_with True (FetchOk []) True) (signed_req body_no_output) ?w =
     (Resp 200 (JStr ''OK''), ?w)"
    using o [of True "FetchOk []" True] x by simp
  moreover
  have "replicateWebhook (sample_env_with True (FetchOk []) True) (signed_req body_no_url) ?w =
     (Resp 500 (JStr ''Processing error''), ?w)"
    using n [of True "FetchOk []" True] x by simp
  moreover have "map_option status (get_job ''j1'' (snd (replicateWebhook
      (sample_env_with False (FetchOk []) True) (signed_req body_succeeded) ?w))) = Some Failed"
    using s [of False "FetchOk []" True] x by (simp add: e g st)
  moreover have "map_option status (get_job ''j1'' (snd (replicateWebhook
      (sample_env_with True (FetchNotOk ''404'') True) (signed_req body_succeeded) ?w))) = Some Processing
    \<and> fst (replicateWebhook (sample_env_with True (FetchNotOk ''404'') True)
       (signed_req body_succeeded) ?w) = Resp 500 (JStr ''Processing error'')"
    using s [of True "FetchNotOk ''404''" True] x by (simp add: e g st)
  moreover have "map_option status (get_job ''j1'' (snd (replicateWebhook
      (sample_env_with True (FetchOk []) False) (signed_req body_succeeded) ?w))) = Some Failed"
    using s [of True "FetchOk []" False "[]"] x by (simp add: e g st)
  moreover have "map_option status (get_job ''j1'' (snd (replicateWebhook
      (sample_env_with True (FetchOk []) True) (signed_req body_succeeded) ?w))) = Some Completed"
    using s [of True "FetchOk []" True "[]"] x by (simp add: e g st)
  ultimately show ?thesis by blast
qed

text \<open>
  C5, as the claim states it: a second delivery of the same success callback to a completed
  job would write nothing. The handler never looks at the status of the job it finds:
  the second delivery downloads the result and writes it to the bucket once more.
\<close>

theorem duplicate_write_counterexample:
  "map_option status (get_job ''j1'' (run [Callback sample_env (signed_req body_succeeded)]
      (sample_world Processing (JStr ''pred-1'') None))) = Some Completed \<and>
   trace (run [Callback sample_env (signed_req body_succeeded)]
      (sample_world Processing (JStr ''pred-1'') None)) =
     [Download (JStr ''https://cdn/vid.mp4''), StorageWrite ''outputs/u1/j1/dance.mp4''] \<and>
   trace (run [Callback sample_env (signed_req body_succeeded),
               Callback sample_env (signed_req body_succeeded)]
      (sample_world Processing (JStr ''pred-1'') None)) =
     [Download (JStr ''https://cdn/vid.mp4''), StorageWrite ''outputs/u1/j1/dance.mp4'',
      Download (JStr ''https://cdn/vid.mp4''), StorageWrite ''outputs/u1/j1/dance.mp4'']"
  by (simp add: webhook_defs sample_defs verifier_defs Let_def)

text \<open>
  C5, amended: a verified success callback for a job that is already completed, with the
  output path the handlers give it (\<^verbatim>\<open>outputs/<userId>/<jobId>/dance.mp4\<close>), leaves the
  \<^verbatim>\<open>outputVideoPath\<close> of every job unchanged; but it is not a no-op: when the bucket
  exists and the download succeeds, the result is fetched and written to the same path
  again.
\<close>

theorem repeated_success_callback:
  assumes "verification_runs e r"
    and "signature_ok e (rawBody r) (webhook_id r) (webhook_timestamp r) (webhook_signature r)"
    and "JSON_parse e (rawBody r) = Some p"
    and "truthy (get_prop p ''id'')"
    and "find_by_replicateJobId (get_prop p ''id'') w = Some (jobId, j)"
    and "get_prop p ''status'' = JStr ''succeeded''"
    and "truthy (get_prop p ''output'')"
    and "distinct (map fst (jobs w))"
    and "status j = Completed"
    and "outputVideoPath j = Some (outputPath_of (userId j) jobId)"
  shows
   "map (\<lambda>(k, d). (k, outputVideoPath d)) (jobs (snd (replicateWebhook e r w))) =
      map (\<lambda>(k, d). (k, outputVideoPath d)) (jobs w) \<and>
    (bucket e \<and> truthy (extractVideoUrl (get_prop p ''output'')) \<and>
     fetch e (extractVideoUrl (get_prop p ''output'')) = FetchOk buf \<longrightarrow>
       trace (snd (replicateWebhook e r w)) =
         trace w @ [Download (extractVideoUrl (get_prop p ''output'')),
                    StorageWrite (outputPath_of (userId j) jobId)])"
proof -
  let ?url = "extractVideoUrl (get_prop p ''output'')"
  let ?path = "outputPath_of (userId j) jobId"
  let ?g = "\<lambda>(k, d). (k, outputVideoPath d)"
  have mem: "(jobId, j) \<in> set (jobs w)"
    using assms(5) by (auto simp: find_by_replicateJobId_def dest: find_in_set)
  have only: "d = j" if "(jobId, d) \<in> set (jobs w)" for d
    using that mem assms(8) by (meson eq_key_imp_eq_value)
  have failed: "map ?g (update_doc jobId (mark_failed m t) (jobs w)) = map ?g (jobs w)" for m t
    by (rule update_doc_preserves) (simp add: mark_failed_def)
  have completed: "map ?g (update_doc jobId (mark_completed ?path t) (jobs w)) = map ?g (jobs w)" for t
    by (rule update_doc_preserves) (use only assms(10) in \<open>auto simp: mark_completed_def\<close>)
  note cases = webhook_success_cases [OF assms(1-7) refl refl]
  have paths: "map ?g (jobs (snd (replicateWebhook e r w))) = map ?g (jobs w)"
  proof (cases "truthy ?url")
    case False
    then show ?thesis using cases by simp
  next
    case u: True
    show ?thesis
    proof (cases "bucket e")
      case False
      then show ?thesis using cases u failed by simp
    next
      case b: True
      show ?thesis
      proof (cases "fetch e ?url")
        case (FetchOk bytes)
        then show ?thesis
          using cases [of bytes] u b failed completed by (cases "save e ?path") simp_all
      qed (use cases u b in simp_all)
    qed
  qed
  have "trace (snd (replicateWebhook e r w)) = trace w @ [Download ?url, StorageWrite ?path]"
    if "bucket e" "truthy ?url" "fetch e ?url = FetchOk buf"
    using cases [of buf] that by (cases "save e ?path") simp_all
  with paths show ?thesis by blast
qed

theorem repeated_success_callback_witness:
  "map (\<lambda>(k, d). (k, outputVideoPath d))
     (jobs (snd (replicateWebhook sample_env (signed_req body_succeeded)
        (sample_world Completed (JStr ''pred-1'') (Some ''outputs/u1/j1/dance.mp4''))))) =
   [(''j1'', Some ''outputs/u1/j1/dance.mp4'')] \<and>
   trace (snd (replicateWebhook sample_env (signed_req body_succeeded)
        (sample_world Completed (JStr ''pred-1'') (Some ''outputs/u1/j1/dance.mp4'')))) =
   [Download (JStr ''https://cdn/vid.mp4''), StorageWrite ''outputs/u1/j1/dance.mp4'']"
proof -
  let ?w = "sample_world Completed (JStr ''pred-1'') (Some ''outputs/u1/j1/dance.mp4'')"
  let ?j = "sample_job Completed (JStr ''pred-1'') (Some ''outputs/u1/j1/dance.mp4'')"
  let ?p = "JObj [(''id'', JStr ''pred-1''), (''status'', JStr ''succeeded''),
                  (''output'', JStr ''https://cdn/vid.mp4'')]"
  have ps: "JSON_parse sample_env (rawBody (signed_req body_succeeded)) = Some ?p"
    by (simp add: sample_env_def signed_req_def sample_parse_bodies)
  have d: "distinct (map fst (jobs ?w))" and c: "status ?j = Completed"
    and o: "outputVideoPath ?j = Some (outputPath_of (userId ?j) ''j1'')"
    by (simp_all add: sample_world_def sample_job_def outputPath_of_def)
  have i: "truthy (get_prop ?p ''id'')" and s: "get_prop ?p ''status'' = JStr ''succeeded''"
    and t: "truthy (get_prop ?p ''output'')"
    by simp_all
  have f: "find_by_replicateJobId (get_prop ?p ''id'') ?w = Some (''j1'', ?j)"
    by (simp add: sample_find)
  note r = repeated_success_callback
    [OF signed_req_verified [OF sample_env_fields(5-8)] ps i f s t d c o, of "[]"]
  have x: "extractVideoUrl (JStr ''https://cdn/vid.mp4'') = JStr ''https://cdn/vid.mp4''"
    by (simp add: extractVideoUrl_def)
  have e: "bucket sample_env" "fetch sample_env v = FetchOk []" for v
    by (simp_all add: sample_env_def)
  from r show ?thesis
    by (simp add: x e sample_world_def sample_job_def outputPath_of_def)
qed

section \<open>The life cycle of a job\<close>

text \<open>
  C2, as the claim states it: a job that is completed or failed would keep its status
  whatever follows. A later callback with status \<^verbatim>\<open>failed\<close> for the same prediction moves
  a completed job to failed.
\<close>

theorem terminal_state_left_counterexample:
  "map_option status
     (get_job ''j1'' (sample_world Completed (JStr ''pred-1'') (Some ''outputs/u1/j1/dance.mp4''))) =
     Some Completed \<and>
   map_option status
     (get_job ''j1'' (run [Callback sample_env (signed_req body_failed)]
        (sample_world Completed (JStr ''pred-1'') (Some ''outputs/u1/j1/dance.mp4'')))) =
     Some Failed"
  by (simp add: webhook_defs sample_defs verifier_defs Let_def)

text \<open>
  C2, amended: along every run of \<^verbatim>\<open>createJob\<close>, \<^verbatim>\<open>startJob\<close> and \<^verbatim>\<open>replicateWebhook\<close>
  (with fresh identifiers for new jobs) a job stays in the collection and its status never
  moves backwards in the order pending, processing, final: a job that left pending never
  is pending again, and a completed or failed job is completed or failed ever after.
  \<^verbatim>\<open>createJob\<close> changes no existing job; \<^verbatim>\<open>startJob\<close> changes the status of a pending
  job only (to processing, or to completed in mock mode); \<^verbatim>\<open>replicateWebhook\<close> sets a
  status to completed or failed only, and it does so whatever the status was, so a final
  status can still change into the other one.
\<close>

theorem status_transitions:
  "(fresh_ids ops w \<and> get_job k w = Some j \<longrightarrow>
      (\<exists>j'. get_job k (run ops w) = Some j' \<and> rank (status j) \<le> rank (status j'))) \<and>
   (get_job k w = Some j \<and> get_job k (snd (createJob e r w)) = Some j' \<and>
    newJobId e \<notin> fst ` set (jobs w) \<longrightarrow> status j' = status j) \<and>
   (get_job k w = Some j \<and> get_job k (snd (startJob e r w)) = Some j' \<and> status j' \<noteq> status j \<longrightarrow>
      status j = Pending \<and> (status j' = Processing \<or> status j' = Completed)) \<and>
   (get_job k w = Some j \<and> get_job k (snd (replicateWebhook e r' w)) = Some j' \<and>
    status j' \<noteq> status j \<longrightarrow> status j' = Completed \<or> status j' = Failed)"
proof (intro conjI impI)
  assume "fresh_ids ops w \<and> get_job k w = Some j"
  then show "\<exists>j'. get_job k (run ops w) = Some j' \<and> rank (status j) \<le> rank (status j')"
    using run_rank by blast
next
  assume "get_job k w = Some j \<and> get_job k (snd (createJob e r w)) = Some j' \<and>
    newJobId e \<notin> fst ` set (jobs w)"
  then show "status j' = status j"
    using createJob_status [of k w j e r] by simp
next
  assume a: "get_job k w = Some j \<and> get_job k (snd (startJob e r w)) = Some j' \<and>
    status j' \<noteq> status j"
  then show "status j = Pending"
    using startJob_status [of k w j e r] by auto
  from a show "status j' = Processing \<or> status j' = Completed"
    using startJob_status [of k w j e r] by auto
next
  assume "get_job k w = Some j \<and> get_job k (snd (replicateWebhook e r' w)) = Some j' \<and>
    status j' \<noteq> status j"
  then show "status j' = Completed \<or> status j' = Failed"
    using replicateWebhook_status [of k w j e r'] by auto
qed

theorem status_transitions_witness:
  "(\<exists>j'. get_job ''j1'' (run [StartJob sample_env (start_req ''j1''),
                               Callback sample_env (signed_req body_succeeded),
                               CreateJob sample_env ((start_req ''j1'')\<lparr>body_danceStyle := JStr ''disco''\<rparr>)]
                          (sample_world Pending Null None)) = Some j' \<and>
         rank Pending \<le> rank (status j')) \<and>
   map_option status (get_job ''j1'' (snd (createJob sample_env
       ((start_req ''j1'')\<lparr>body_danceStyle := JStr ''disco''\<rparr>) (sample_world Pending Null None)))) =
     Some Pending \<and>
   map_option status (get_job ''j1'' (snd (startJob sample_env (start_req ''j1'')
       (sample_world Pending Null None)))) = Some Processing \<and>
   map_option status (get_job ''j1'' (snd (replicateWebhook sample_env (signed_req body_succeeded)
       (sample_world Processing (JStr ''pred-1'') None)))) = Some Completed"
proof -
  let ?w = "sample_world Pending Null None"
  let ?w1 = "sample_world Processing (JStr ''pred-1'') None"
  let ?c = "(start_req ''j1'')\<lparr>body_danceStyle := JStr ''disco''\<rparr>"
  let ?ops = "[StartJob sample_env (start_req ''j1''),
               Callback sample_env (signed_req body_succeeded), CreateJob sample_env ?c]"
  have s1: "jobs (snd (startJob sample_env (start_req ''j1'') ?w)) = jobs ?w1"
    by (simp add: startJob_def authenticated_def with_pending_job_def checkRateLimit_def
      is_active_user_def jobsSnapshot_def counts_for_quota_def dayAgo_def get_job_def
      valid_doc_path_def doc_segments_def startsWith_def idToken_of_def startJob_run_def
      verifyStorageWritable_def start_prediction_def update_doc_def mark_processing_def
      FREE_USER_DAILY_LIMIT_def Let_def sample_defs)
  have s2: "jobs (snd (replicateWebhook sample_env (signed_req body_succeeded) w')) =
      [(''j1'', mark_completed ''outputs/u1/j1/dance.mp4'' 1000000
          (sample_job Processing (JStr ''pred-1'') None))]"
    if "jobs w' = jobs ?w1" for w'
    using that by (simp add: webhook_defs sample_defs verifier_defs Let_def)
  note s2' = s2 [OF refl]
  have s3: "jobs (snd (createJob sample_env ?c ?w)) =
      jobs ?w @ [(''j2'', new_job sample_env ''u1'' ''uploads/u1/j2/original.jpg'' ''disco'')]"
    by (simp add: createJob_def authenticated_def startsWith_def idToken_of_def validStyles_def
        getOrCreateUser_def set_doc_def Let_def sample_defs)
  have f: "fresh_ids ?ops ?w"
    by (simp add: s2 [OF s1]) (simp add: sample_env_def)
  have g: "get_job ''j1'' ?w = Some (sample_job Pending Null None)"
    and g1: "get_job ''j1'' ?w1 = Some (sample_job Processing (JStr ''pred-1'') None)"
    by (simp_all add: get_job_def sample_world_def)
  have n: "newJobId sample_env \<notin> fst ` set (jobs ?w)"
    by (simp add: sample_env_def sample_world_def)
  have p: "status (sample_job st rid out) = st" for st rid out
    by (simp add: sample_job_def)
  have gc: "get_job ''j1'' (snd (createJob sample_env ?c ?w)) = Some (sample_job Pending Null None)"
    by (simp add: get_job_def s3) (simp add: sample_world_def)
  have gs: "get_job ''j1'' (snd (startJob sample_env (start_req ''j1'') ?w)) =
      Some (sample_job Processing (JStr ''pred-1'') None)"
    by (simp add: get_job_def s1) (simp add: sample_world_def)
  have gw: "get_job ''j1'' (snd (replicateWebhook sample_env (signed_req body_succeeded) ?w1)) =
      Some (mark_completed ''outputs/u1/j1/dance.mp4'' 1000000
          (sample_job Processing (JStr ''pred-1'') None))"
    by (simp add: get_job_def s2')
  have "\<exists>j'. get_job ''j1'' (run ?ops ?w) = Some j' \<and> rank Pending \<le> rank (status j')"
    using status_transitions [where ops = ?ops and w = ?w and k = "''j1''"
        and j = "sample_job Pending Null None"] f g
    by (simp add: p)
  moreover have "map_option status (get_job ''j1'' (snd (createJob sample_env ?c ?w))) = Some Pending"
    using status_transitions [where w = ?w and k = "''j1''" and j = "sample_job Pending Null None"
        and e = sample_env and r = ?c and j' = "sample_job Pending Null None"] g n gc
    by (simp add: p)
  moreover have "map_option status (get_job ''j1'' (snd (startJob sample_env (start_req ''j1'') ?w))) =
      Some Processing"
    using status_transitions [where w = ?w and k = "''j1''" and j = "sample_job Pending Null None"
        and e = sample_env and r = "start_req ''j1''"
        and j' = "sample_job Processing (JStr ''pred-1'') None"] g gs
    by (simp add: p)
  moreover have "map_option status (get_job ''j1'' (snd (replicateWebhook sample_env
      (signed_req body_succeeded) ?w1))) = Some Completed"
    using status_transitions [where w = ?w1 and k = "''j1''"
        and j = "sample_job Processing (JStr ''pred-1'') None" and e = sample_env
        and r' = "signed_req body_succeeded"
        and j' = "mark_completed ''outputs/u1/j1/dance.mp4'' 1000000
          (sample_job Processing (JStr ''pred-1'') None)"] g1 gw
    by (simp add: mark_completed_def p)
  ultimately show ?thesis by blast
qed

section \<open>Starting a job\<close>

text \<open>
  C8, as the claim states it: every call of \<^verbatim>\<open>startJob\<close> for an absent job would be answered
  404. For the \<^verbatim>\<open>jobId\<close> \<^verbatim>\<open>a/b\<close>, which no job has, \<^verbatim>\<open>doc(jobId)\<close> throws because the
  path names no document, and the \<^verbatim>\<open>catch\<close> block answers 500.
\<close>

theorem absent_job_counterexample:
  "get_job ''a/b'' (quota_world ''none'') = None \<and>
   (''a/b'' \<notin> fst ` set (jobs (quota_world ''none''))) \<and>
   startJob sample_env (start_req ''a/b'') (quota_world ''none'') =
     (Resp 500 (JObj [(''error'', JStr (thrownMessage sample_env))]), quota_world ''none'')"
proof -
  have "\<not> valid_doc_path ''a/b''"
    by (simp add: valid_doc_path_def doc_segments_def)
  then have "startJob sample_env (start_req ''a/b'') (quota_world ''none'') =
     (internal_error (thrownMessage sample_env), quota_world ''none'')"
    using startJob_authenticated [OF start_req_auth(1-4), of "''a/b''" "quota_world ''none''"]
    by (simp add: start_req_auth(5) with_pending_job_def)
  moreover have "internal_error (thrownMessage sample_env) =
      Resp 500 (JObj [(''error'', JStr (thrownMessage sample_env))])"
    by (simp add: internal_error_def json_error_def sample_env_def)
  moreover have "get_job ''a/b'' (quota_world ''none'') = None"
    "''a/b'' \<notin> fst ` set (jobs (quota_world ''none''))"
    by (simp_all add: get_job_def quota_world_def)
  ultimately show ?thesis by simp
qed

text \<open>
  C8, amended: for every call of \<^verbatim>\<open>startJob\<close> that is a \<^verbatim>\<open>POST\<close> with a bearer token the
  identity provider accepts: a missing \<^verbatim>\<open>jobId\<close> is answered 400, and a \<^verbatim>\<open>jobId\<close> that is
  not the path of a document (not a string, or with \<^verbatim>\<open>//\<close>, or with an even number of
  segments) is answered 500; for the path of a document, the answer is 404 if there is no
  such job, 403 if the job is of another user, and 400 with the message
  \<^verbatim>\<open>Job already <status>\<close> if the job is the caller's and not pending. In all these cases
  the world is returned as it was: no inference call, no change of the job.
\<close>

theorem startJob_guards:
  assumes "http_method r = ''POST''" and "authorization r = Some h"
    and "startsWith h ''Bearer ''" and "verifyIdToken e (idToken_of h) = Inr (uid, mail)"
  shows
   "(\<not> truthy (body_jobId r) \<longrightarrow> startJob e r w = (json_error 400 ''jobId is required'', w)) \<and>
    (truthy (body_jobId r) \<and> (\<forall>s. body_jobId r = JStr s \<longrightarrow> \<not> valid_doc_path s) \<longrightarrow>
       startJob e r w = (internal_error (thrownMessage e), w)) \<and>
    (body_jobId r = JStr s \<and> valid_doc_path s \<and>
     (\<forall>jid. doc_segments s = [jid] \<longrightarrow> get_job jid w = None) \<longrightarrow>
       startJob e r w = (json_error 404 ''Job not found'', w)) \<and>
    (body_jobId r = JStr s \<and> valid_doc_path s \<and> doc_segments s = [jid] \<and>
     get_job jid w = Some j \<and> userId j \<noteq> uid \<longrightarrow>
       startJob e r w = (json_error 403 ''Unauthorized'', w)) \<and>
    (body_jobId r = JStr s \<and> valid_doc_path s \<and> doc_segments s = [jid] \<and>
     get_job jid w = Some j \<and> userId j = uid \<and> status j \<noteq> Pending \<longrightarrow>
       startJob e r w = (json_error 400 (''Job already '' @ status_str (status j)), w))"
proof -
  note a = startJob_authenticated [OF assms(1-4), of w]
  have c1: "startJob e r w = (json_error 400 ''jobId is required'', w)"
    if "\<not> truthy (body_jobId r)"
    using a that by (simp add: with_pending_job_def)
  have c2: "startJob e r w = (internal_error (thrownMessage e), w)"
    if "truthy (body_jobId r)" "\<forall>s. body_jobId r = JStr s \<longrightarrow> \<not> valid_doc_path s"
    using a that by (cases "body_jobId r") (simp_all add: with_pending_job_def)
  have c3: "startJob e r w = (json_error 404 ''Job not found'', w)"
    if "body_jobId r = JStr s" "valid_doc_path s"
      "\<forall>jid. doc_segments s = [jid] \<longrightarrow> get_job jid w = None"
  proof (cases "doc_segments s")
    case Nil
    then show ?thesis
      using a that valid_doc_path_nonempty [of s] by (simp add: with_pending_job_def)
  next
    case (Cons i rest)
    then show ?thesis
      using a that valid_doc_path_nonempty [of s]
      by (cases rest) (simp_all add: with_pending_job_def)
  qed
  have c4: "startJob e r w = (json_error 403 ''Unauthorized'', w)"
    if "body_jobId r = JStr s" "valid_doc_path s" "doc_segments s = [jid]"
      "get_job jid w = Some j" "userId j \<noteq> uid"
    using a that valid_doc_path_nonempty [of s] by (simp add: with_pending_job_def)
  have c5: "startJob e r w = (json_error 400 (''Job already '' @ status_str (status j)), w)"
    if "body_jobId r = JStr s" "valid_doc_path s" "doc_segments s = [jid]"
      "get_job jid w = Some j" "userId j = uid" "status j \<noteq> Pending"
    using a that valid_doc_path_nonempty [of s] by (simp add: with_pending_job_def)
  from c1 c2 c3 c4 c5 show ?thesis by blast
qed

theorem startJob_guards_witness:
  "startJob sample_env ((start_req ''j9'')\<lparr>body_jobId := Undefined\<rparr>) (quota_world ''none'') =
     (json_error 400 ''jobId is required'', quota_world ''none'') \<and>
   startJob sample_env (start_req ''a/b'') (quota_world ''none'') =
     (internal_error (thrownMessage sample_env), quota_world ''none'') \<and>
   startJob sample_env (start_req ''j9'') (quota_world ''none'') =
     (json_error 404 ''Job not found'', quota_world ''none'') \<and>
   startJob sample_env (start_req ''j4'') (quota_world ''none'') =
     (json_error 403 ''Unauthorized'', quota_world ''none'') \<and>
   startJob sample_env (start_req ''/j1'') (quota_world ''none'') =
     (json_error 400 ''Job already processing'', quota_world ''none'')"
proof -
  let ?w = "quota_world ''none''"
  have a1: "http_method ((start_req i)\<lparr>body_jobId := v\<rparr>) = ''POST''"
    and a2: "authorization ((start_req i)\<lparr>body_jobId := v\<rparr>) = Some ''Bearer tok-u1''"
    and a5: "body_jobId ((start_req i)\<lparr>body_jobId := v\<rparr>) = v" for i v
    using start_req_auth by simp_all
  have b: "get_job ''j9'' ?w = None"
    "get_job ''j4'' ?w = Some ((sample_job Pending Null None)\<lparr>userId := ''u2''\<rparr>)"
    "get_job ''j1'' ?w = Some (sample_job Processing (JStr ''pred-1'') None)"
    by (simp_all add: get_job_def quota_world_def)
  have n: "\<not> valid_doc_path ''a/b''"
    by (simp add: valid_doc_path_def doc_segments_def)
  have "startJob sample_env ((start_req ''j9'')\<lparr>body_jobId := Undefined\<rparr>) ?w =
     (json_error 400 ''jobId is required'', ?w)"
    using startJob_guards [where r = "(start_req ''j9'')\<lparr>body_jobId := Undefined\<rparr>" and w = ?w,
        OF a1 a2 start_req_auth(3,4)]
    by simp
  moreover have "startJob sample_env (start_req ''a/b'') ?w =
     (internal_error (thrownMessage sample_env), ?w)"
    using startJob_guards [where r = "start_req ''a/b''" and w = ?w, OF start_req_auth(1-4)] n
    by (simp add: start_req_auth(5))
  moreover have "startJob sample_env (start_req ''j9'') ?w = (json_error 404 ''Job not found'', ?w)"
    using startJob_guards [where r = "start_req ''j9''" and w = ?w and s = "''j9''",
        OF start_req_auth(1-4)] b sample_doc_paths(5) sample_doc_segments(5)
    by (simp add: start_req_auth(5))
  moreover have "startJob sample_env (start_req ''j4'') ?w = (json_error 403 ''Unauthorized'', ?w)"
    using startJob_guards [where r = "start_req ''j4''" and w = ?w and s = "''j4''"
        and jid = "''j4''" and j = "(sample_job Pending Null None)\<lparr>userId := ''u2''\<rparr>",
        OF start_req_auth(1-4)] b sample_doc_paths(4) sample_doc_segments(4)
    by (simp add: start_req_auth(5))
  moreover have "startJob sample_env (start_req ''/j1'') ?w =
     (json_error 400 ''Job already processing'', ?w)"
    using startJob_guards [where r = "start_req ''/j1''" and w = ?w and s = "''/j1''"
        and jid = "''j1''" and j = "sample_job Processing (JStr ''pred-1'') None",
        OF start_req_auth(1-4)] b sample_doc_paths(6) sample_doc_segments(6)
    by (simp add: start_req_auth(5) sample_job_def)
  ultimately show ?thesis by blast
qed

text \<open>
  C6, as the claim states it: the denial would be a 429. The error thrown by
  \<^verbatim>\<open>checkRateLimit\<close> ends in the \<^verbatim>\<open>catch\<close> block of \<^verbatim>\<open>startJob\<close>, which answers 500
  with the message of the error. The user \<^verbatim>\<open>u1\<close> has no subscription and two counted jobs.
\<close>

theorem quota_status_code_counterexample:
  "\<not> is_active_user ''u1'' (quota_world ''none'') \<and>
   length (jobsSnapshot (now sample_env) ''u1'' (quota_world ''none'')) = 2 \<and>
   startJob sample_env (start_req ''j3'') (quota_world ''none'') =
     (Resp 500 (JObj [(''error'', JStr ''Free tier limit: 2 videos per day. Upgrade for unlimited!'')]),
      quota_world ''none'')"
  by (simp add: startJob_def authenticated_def with_pending_job_def checkRateLimit_def
      is_active_user_def jobsSnapshot_def counts_for_quota_def dayAgo_def get_job_def
      valid_doc_path_def doc_segments_def startsWith_def idToken_of_def internal_error_def json_error_def
      FREE_TIER_MSG_def FREE_USER_DAILY_LIMIT_def sample_defs)

text \<open>
  C6, amended: for an authenticated \<^verbatim>\<open>startJob\<close> on a pending job of the caller, the
  request is refused with status 500 and the free-tier message, the world unchanged, if
  the user's \<^verbatim>\<open>subscriptionStatus\<close> is not \<^verbatim>\<open>active\<close> and at least 2 jobs of the user
  with status processing or completed were created within the last 24 hours; otherwise
  the quota lets it pass. Pending and failed jobs do not count, and an active user is
  never refused by the quota.
\<close>

theorem startJob_quota:
  assumes "http_method r = ''POST''" and "authorization r = Some h"
    and "startsWith h ''Bearer ''" and "verifyIdToken e (idToken_of h) = Inr (uid, mail)"
    and "body_jobId r = JStr s" and "valid_doc_path s" and "doc_segments s = [jid]"
    and "get_job jid w = Some j" and "userId j = uid" and "status j = Pending"
  shows
   "(\<not> is_active_user uid w \<and> 2 \<le> length (jobsSnapshot (now e) uid w) \<longrightarrow>
       startJob e r w = (json_error 500 FREE_TIER_MSG, w)) \<and>
    (is_active_user uid w \<or> length (jobsSnapshot (now e) uid w) < 2 \<longrightarrow>
       startJob e r w = startJob_run e (body_jobId r) uid jid j (body_imageUrl r) w) \<and>
    jobsSnapshot (now e) uid w =
      filter (\<lambda>(i, d). userId d = uid \<and> (status d = Processing \<or> status d = Completed) \<and>
                now e - 86400000 \<le> createdAt d) (jobs w) \<and>
    jobsSnapshot (now e) uid
      (w\<lparr>jobs := filter (\<lambda>(i, d). status d \<noteq> Pending \<and> status d \<noteq> Failed) (jobs w)\<rparr>) =
      jobsSnapshot (now e) uid w"
proof -
  have s: "startJob e r w =
      (case checkRateLimit e uid w of
         Inl msg \<Rightarrow> (internal_error msg, w)
       | Inr ok \<Rightarrow> startJob_run e (body_jobId r) uid jid j (body_imageUrl r) w)"
    using startJob_authenticated [OF assms(1-4), of w]
      with_pending_job_found [OF assms(6-10)] assms(5) by simp
  have a: "startJob e r w = (json_error 500 FREE_TIER_MSG, w)"
    if "\<not> is_active_user uid w" "2 \<le> length (jobsSnapshot (now e) uid w)"
    using that s FREE_TIER_MSG_nonempty
    by (simp add: checkRateLimit_def FREE_USER_DAILY_LIMIT_def internal_error_def)
  have b: "startJob e r w = startJob_run e (body_jobId r) uid jid j (body_imageUrl r) w"
    if "is_active_user uid w \<or> length (jobsSnapshot (now e) uid w) < 2"
    using that s by (auto simp: checkRateLimit_def FREE_USER_DAILY_LIMIT_def)
  have c: "jobsSnapshot (now e) uid w =
      filter (\<lambda>(i, d). userId d = uid \<and> (status d = Processing \<or> status d = Completed) \<and>
                now e - 86400000 \<le> createdAt d) (jobs w)"
    by (simp add: jobsSnapshot_def counts_for_quota_def dayAgo_def)
  from a b c jobsSnapshot_terminal_only show ?thesis by blast
qed

theorem startJob_quota_witness:
  "startJob sample_env (start_req ''j3'') (quota_world ''none'') =
     (json_error 500 FREE_TIER_MSG, quota_world ''none'') \<and>
   startJob sample_env (start_req ''j3'') (quota_world ''active'') =
     startJob_run sample_env (body_jobId (start_req ''j3'')) ''u1'' ''j3''
       (sample_job Pending Null None) (body_imageUrl (start_req ''j3'')) (quota_world ''active'')"
proof -
  have j: "get_job ''j3'' (quota_world sub) = Some (sample_job Pending Null None)"
    and u: "userId (sample_job Pending Null None) = ''u1''"
    and p: "status (sample_job Pending Null None) = Pending" for sub
    by (simp_all add: get_job_def quota_world_def sample_job_def)
  note q = startJob_quota [OF start_req_auth sample_doc_paths(3) sample_doc_segments(3) j u p]
  have n: "\<not> is_active_user ''u1'' (quota_world ''none'')"
    and a: "is_active_user ''u1'' (quota_world ''active'')"
    by (simp_all add: is_active_user_def quota_world_def sample_user_def)
  have c: "2 \<le> length (jobsSnapshot (now sample_env) ''u1'' (quota_world ''none''))"
    by (simp add: jobsSnapshot_def counts_for_quota_def dayAgo_def quota_world_def
        sample_job_def sample_env_def)
  from q [of "''none''"] n c q [of "''active''"] a show ?thesis by simp
qed




end
